theory Spec2Isabelle
  imports Complex_Main "HOL-Library.Multiset"
begin

section \<open>Values, errors and the percentage normalizer\<close>

text \<open>
  A spreadsheet cell, as the data-frame library hands it to \<^verbatim>\<open>streamlit_app.py\<close>:
  a missing entry (\<^verbatim>\<open>None\<close>, \<^verbatim>\<open>NaN\<close>: whatever \<^verbatim>\<open>pd.isna\<close> accepts), a number, or
  a piece of text. Numbers are modelled as exact reals: the rounding of binary floating
  point is not part of the model.
\<close>

datatype cell = Missing | Num real | Text string

text \<open>The exceptions the modelled code can raise.\<close>

datatype error = TypeError | KeyError | IndexError | AttributeError | ValueError

text \<open>Sequencing of fallible steps: the first exception raised propagates.\<close>

definition andthen :: "error + 'a \<Rightarrow> ('a \<Rightarrow> error + 'b) \<Rightarrow> error + 'b" where
  "andthen m f = (case m of Inl e \<Rightarrow> Inl e | Inr x \<Rightarrow> f x)"

text \<open>
  \<^verbatim>\<open>
  def to_pct(v):
      if pd.isna(v):
          return None
      return v*100 if v <= 1 else v
  \<close>
  The comparison \<^verbatim>\<open>v <= 1\<close> of a string with a number raises \<^verbatim>\<open>TypeError\<close>.
\<close>

fun to_pct :: "cell \<Rightarrow> error + cell" where
  "to_pct Missing = Inr Missing"
| "to_pct (Num v) = Inr (Num (if v \<le> 1 then v * 100 else v))"
| "to_pct (Text s) = Inl TypeError"


section \<open>Data frames\<close>

text \<open>
  A table of the sheet set: the row labels (\<^verbatim>\<open>df.index\<close>) and the named columns in
  their order, each holding one cell per row. The sheet set, a Python \<^verbatim>\<open>dict\<close>, is a
  map from sheet names to tables.
\<close>

record dataframe =
  df_index :: "nat list"
  df_columns :: "(string \<times> cell list) list"

type_synonym sheets = "string \<rightharpoonup> dataframe"

text \<open>
  The invariant of a table read from a spreadsheet: column names are distinct and every
  column has one cell per row.
\<close>

definition wf_df :: "dataframe \<Rightarrow> bool" where
  "wf_df df = (distinct (map fst (df_columns df))
     \<and> list_all (\<lambda>col. length (snd col) = length (df_index df)) (df_columns df))"

text \<open>\<^verbatim>\<open>df.empty\<close>: some axis has length zero.\<close>

definition df_empty :: "dataframe \<Rightarrow> bool" where
  "df_empty df = (df_index df = [] \<or> df_columns df = [])"

text \<open>\<^verbatim>\<open>df[c]\<close>: reading a column that does not exist raises \<^verbatim>\<open>KeyError\<close>.\<close>

definition getitem :: "dataframe \<Rightarrow> string \<Rightarrow> error + cell list" where
  "getitem df c = (case map_of (df_columns df) c of None \<Rightarrow> Inl KeyError | Some xs \<Rightarrow> Inr xs)"

text \<open>\<^verbatim>\<open>df[c] = xs\<close>: an existing column is replaced in place, a new one is appended.\<close>

fun set_column :: "string \<Rightarrow> cell list \<Rightarrow> (string \<times> cell list) list \<Rightarrow> (string \<times> cell list) list" where
  "set_column c xs [] = [(c, xs)]"
| "set_column c xs (col # cols) =
     (if fst col = c then (c, xs) # cols else col # set_column c xs cols)"

definition setitem :: "dataframe \<Rightarrow> string \<Rightarrow> cell list \<Rightarrow> dataframe" where
  "setitem df c xs = df\<lparr>df_columns := set_column c xs (df_columns df)\<rparr>"

text \<open>\<^verbatim>\<open>series.apply(f)\<close>: \<open>f\<close> on every cell in row order; the first exception propagates.\<close>

fun series_apply :: "(cell \<Rightarrow> error + cell) \<Rightarrow> cell list \<Rightarrow> error + cell list" where
  "series_apply f [] = Inr []"
| "series_apply f (x # xs) =
     andthen (f x) (\<lambda>y. andthen (series_apply f xs) (\<lambda>ys. Inr (y # ys)))"

text \<open>The statement \<^verbatim>\<open>df[c] = df[c].apply(to_pct)\<close>, returning the updated table.\<close>

definition normalize_column :: "dataframe \<Rightarrow> string \<Rightarrow> error + dataframe" where
  "normalize_column df c =
     andthen (getitem df c) (\<lambda>xs.
     andthen (series_apply to_pct xs) (\<lambda>ys. Inr (setitem df c ys)))"

text \<open>Rows by position (\<^verbatim>\<open>df.take(indexer)\<close>), \<^verbatim>\<open>df.head(n)\<close> and \<^verbatim>\<open>df.reset_index(drop=True)\<close>.\<close>

definition take_rows :: "nat list \<Rightarrow> dataframe \<Rightarrow> dataframe" where
  "take_rows indexer df =
     \<lparr>df_index = map (\<lambda>i. df_index df ! i) indexer,
      df_columns = map (\<lambda>col. (fst col, map (\<lambda>i. snd col ! i) indexer)) (df_columns df)\<rparr>"

definition df_head :: "nat \<Rightarrow> dataframe \<Rightarrow> dataframe" where
  "df_head n df =
     \<lparr>df_index = take n (df_index df),
      df_columns = map (\<lambda>col. (fst col, take n (snd col))) (df_columns df)\<rparr>"

definition reset_index :: "dataframe \<Rightarrow> dataframe" where
  "reset_index df = df\<lparr>df_index := [0..<length (df_index df)]\<rparr>"

subsection \<open>Sorting by a column\<close>

text \<open>
  \<^verbatim>\<open>df.sort_values(by, ascending=...)\<close> is called without \<^verbatim>\<open>kind\<close>, so the library sorts
  with its default \<^verbatim>\<open>kind='quicksort'\<close>, which it documents as not stable. The algorithm
  is therefore a parameter of the model: a function from the list of keys to the list of
  positions in sorted order (\<^verbatim>\<open>numpy.argsort\<close>).
\<close>

type_synonym sort_kind = "real list \<Rightarrow> nat list"

text \<open>What every sorting algorithm guarantees, and what only a stable one does.\<close>

definition is_argsort :: "sort_kind \<Rightarrow> bool" where
  "is_argsort kind = (\<forall>ks. mset (kind ks) = mset [0..<length ks]
     \<and> sorted (map (\<lambda>i. ks ! i) (kind ks)))"

definition is_stable :: "sort_kind \<Rightarrow> bool" where
  "is_stable kind = (\<forall>ks. mset (kind ks) = mset [0..<length ks]
     \<and> sorted_wrt (\<lambda>i j. ks ! i < ks ! j \<or> (ks ! i = ks ! j \<and> i < j)) (kind ks))"

text \<open>
  Two algorithms with the guarantee of \<open>is_argsort\<close>: insertion sort, which is stable, and
  insertion sort run from the last position, which puts equal keys in reverse order.
\<close>

definition stable_argsort :: sort_kind where
  "stable_argsort ks = sort_key (\<lambda>i. ks ! i) [0..<length ks]"

definition backward_argsort :: sort_kind where
  "backward_argsort ks = sort_key (\<lambda>i. ks ! i) (rev [0..<length ks])"

definition is_text :: "cell \<Rightarrow> bool" where
  "is_text c = (case c of Text s \<Rightarrow> True | _ \<Rightarrow> False)"

definition num_val :: "cell \<Rightarrow> real" where
  "num_val c = (case c of Num v \<Rightarrow> v | _ \<Rightarrow> 0)"

text \<open>
  The library's \<^verbatim>\<open>nargsort(items, kind, ascending, na_position='last')\<close>:
  \<^verbatim>\<open>
  idx = np.arange(len(items))
  non_nans = items[~mask]; non_nan_idx = idx[~mask]; nan_idx = np.nonzero(mask)[0]
  if not ascending:
      non_nans = non_nans[::-1]; non_nan_idx = non_nan_idx[::-1]
  indexer = non_nan_idx[non_nans.argsort(kind=kind)]
  if not ascending:
      indexer = indexer[::-1]
  indexer = np.concatenate([indexer, nan_idx])
  \<close>
  A key column that holds text next to numbers cannot be ordered (\<^verbatim>\<open>TypeError\<close>); the
  sections sort a column that \<open>to_pct\<close> has already been applied to, which holds no text.
  Indexing with a position out of range raises \<^verbatim>\<open>IndexError\<close>.
\<close>

definition nargsort :: "sort_kind \<Rightarrow> bool \<Rightarrow> cell list \<Rightarrow> error + nat list" where
  "nargsort kind ascending items =
     (if list_ex is_text items then Inl TypeError
      else
        let idx = [0..<length items];
            non_nan_idx0 = filter (\<lambda>i. items ! i \<noteq> Missing) idx;
            nan_idx = filter (\<lambda>i. items ! i = Missing) idx;
            non_nans0 = map (\<lambda>i. num_val (items ! i)) non_nan_idx0;
            non_nans = (if ascending then non_nans0 else rev non_nans0);
            non_nan_idx = (if ascending then non_nan_idx0 else rev non_nan_idx0);
            positions = kind non_nans
        in if list_all (\<lambda>j. j < length non_nan_idx) positions
           then let indexer = map (\<lambda>j. non_nan_idx ! j) positions
                in Inr ((if ascending then indexer else rev indexer) @ nan_idx)
           else Inl IndexError)"

definition sort_values :: "sort_kind \<Rightarrow> string \<Rightarrow> bool \<Rightarrow> dataframe \<Rightarrow> error + dataframe" where
  "sort_values kind by_col ascending df =
     andthen (getitem df by_col) (\<lambda>k.
     andthen (nargsort kind ascending k) (\<lambda>indexer. Inr (take_rows indexer df)))"

section \<open>Chart descriptions and the chart shapers\<close>

text \<open>
  A chart description is a value: the traces and the title of a stacked bar chart, the
  values, names and title of a pie with a hole, and for the charts built by
  \<^verbatim>\<open>plotly.express\<close> from a whole table, the table with the names of the columns on each
  axis. Sizes, margins and axis titles are constants of the source and are left out.
\<close>

datatype bar = Bar string "cell list" "cell list"

datatype chart =
    StackedBar string "bar list"
  | Pie string "cell list" "cell list"
  | BarChart dataframe string string
  | Line dataframe string string "string option" string

text \<open>
  \<^verbatim>\<open>
  def make_stacked_bar(df, y_col, pos_col, neu_col, neg_col, title):
      plot_df = df.copy()
      for c in [pos_col, neu_col, neg_col]:
          plot_df[c] = plot_df[c].apply(to_pct)
      fig = go.Figure()
      fig.add_bar(name="Positive", x=plot_df[y_col], y=plot_df[pos_col])
      fig.add_bar(name="Neutral",  x=plot_df[y_col], y=plot_df[neu_col])
      fig.add_bar(name="Negative", x=plot_df[y_col], y=plot_df[neg_col])
      fig.update_layout(barmode="stack", title=title, ...)
      return fig
  \<close>
\<close>

fun normalize_columns :: "string list \<Rightarrow> dataframe \<Rightarrow> error + dataframe" where
  "normalize_columns [] df = Inr df"
| "normalize_columns (c # cs) df = andthen (normalize_column df c) (normalize_columns cs)"

definition add_bar :: "string \<Rightarrow> dataframe \<Rightarrow> string \<Rightarrow> string \<Rightarrow> error + bar" where
  "add_bar name plot_df x_col y_col =
     andthen (getitem plot_df x_col) (\<lambda>x.
     andthen (getitem plot_df y_col) (\<lambda>y. Inr (Bar name x y)))"

definition make_stacked_bar ::
  "dataframe \<Rightarrow> string \<Rightarrow> string \<Rightarrow> string \<Rightarrow> string \<Rightarrow> string \<Rightarrow> error + chart" where
  "make_stacked_bar df y_col pos_col neu_col neg_col title =
     andthen (normalize_columns [pos_col, neu_col, neg_col] df) (\<lambda>plot_df.
     andthen (add_bar ''Positive'' plot_df y_col pos_col) (\<lambda>b1.
     andthen (add_bar ''Neutral'' plot_df y_col neu_col) (\<lambda>b2.
     andthen (add_bar ''Negative'' plot_df y_col neg_col) (\<lambda>b3.
     Inr (StackedBar title [b1, b2, b3])))))"

text \<open>
  \<^verbatim>\<open>
  def donut(values, labels, title):
      fig = px.pie(values=values, names=labels, hole=0.55)
      fig.update_layout(title=title, ...)
      return fig
  \<close>
\<close>

definition donut :: "cell list \<Rightarrow> cell list \<Rightarrow> string \<Rightarrow> chart" where
  "donut values labels title = Pie title values labels"

section \<open>The page\<close>

text \<open>
  What a section puts on the page, in order. The layout containers (columns, expanders)
  are not modelled, and a metric carries the number that the source formats with
  \<^verbatim>\<open>:.1f\<close>. The label texts of the overview bar chart are left out.
\<close>

datatype widget =
    Markdown string
  | Info string
  | Metric string real
  | PlotlyChart chart
  | DataView dataframe
  | Caption string

text \<open>\<^verbatim>\<open>str.lower\<close> on the letters A to Z; every other character is left as it is.\<close>

definition lower_char :: "char \<Rightarrow> char" where
  "lower_char c =
     (case map_of (zip ''ABCDEFGHIJKLMNOPQRSTUVWXYZ'' ''abcdefghijklmnopqrstuvwxyz'') c of
        Some d \<Rightarrow> d
      | None \<Rightarrow> c)"

definition str_lower :: "string \<Rightarrow> string" where
  "str_lower s = map lower_char s"

subsection \<open>Overall Summary\<close>

text \<open>
  \<^verbatim>\<open>
  def metric_block(title, value):
      st.metric(title, f"{to_pct(value):.1f}%")
  \<close>
  Formatting \<^verbatim>\<open>None\<close> with \<^verbatim>\<open>:.1f\<close> raises \<^verbatim>\<open>TypeError\<close>.
\<close>

definition metric_block :: "string \<Rightarrow> cell \<Rightarrow> error + widget" where
  "metric_block title v =
     andthen (to_pct v) (\<lambda>p. case p of Num r \<Rightarrow> Inr (Metric title r) | _ \<Rightarrow> Inl TypeError)"

text \<open>
  The expression
  \<^verbatim>\<open>overall.loc[overall["Category"].str.lower()==label.lower(), "Percentage"].values[0]\<close>.
  The \<^verbatim>\<open>.str\<close> accessor raises \<^verbatim>\<open>AttributeError\<close> on a column without any string;
  on a cell that is not a string \<^verbatim>\<open>.str.lower()\<close> gives a missing value, which equals no
  label; \<^verbatim>\<open>.values[0]\<close> of an empty selection raises \<^verbatim>\<open>IndexError\<close>.
\<close>

definition cat_matches :: "string \<Rightarrow> cell \<Rightarrow> bool" where
  "cat_matches label c = (case c of Text s \<Rightarrow> str_lower s = str_lower label | _ \<Rightarrow> False)"

definition lookup_metric :: "dataframe \<Rightarrow> string \<Rightarrow> error + cell" where
  "lookup_metric overall label =
     andthen (getitem overall ''Category'') (\<lambda>cats.
       if \<not> list_ex is_text cats then Inl AttributeError
       else andthen (getitem overall ''Percentage'') (\<lambda>pcts.
         case filter (\<lambda>row. cat_matches label (fst row)) (zip cats pcts) of
           [] \<Rightarrow> Inl IndexError
         | row # _ \<Rightarrow> Inr (snd row)))"

text \<open>
  One turn of the loop over the three labels: the body of the \<^verbatim>\<open>try\<close>, and
  \<^verbatim>\<open>except Exception: pass\<close> around it.
\<close>

definition metric_try :: "dataframe \<Rightarrow> string \<Rightarrow> widget list" where
  "metric_try overall label =
     (case andthen (lookup_metric overall label) (metric_block label) of
        Inl e \<Rightarrow> []
      | Inr w \<Rightarrow> [w])"

definition metric_loop :: "dataframe \<Rightarrow> widget list" where
  "metric_loop overall = concat (map (metric_try overall) [''Positive'', ''Neutral'', ''Negative''])"

text \<open>
  Lines 56 to 80. The assignment to \<^verbatim>\<open>overall["Percentage"]\<close> changes the table that
  the sheet set holds: \<^verbatim>\<open>overall\<close> is that table, not a copy.
\<close>

definition overall_notice :: "widget list" where
  "overall_notice =
     [Markdown ''## Dataset Descriptive Summary'', Info ''Sheet 'Overall Summary' not found.'']"

definition render_overall :: "sheets \<Rightarrow> error + (widget list \<times> sheets)" where
  "render_overall sheets =
     (case sheets ''Overall Summary'' of
        None \<Rightarrow> Inr (overall_notice, sheets)
      | Some overall0 \<Rightarrow>
          if df_empty overall0 then Inr (overall_notice, sheets)
          else
            andthen (normalize_column overall0 ''Percentage'') (\<lambda>overall.
            andthen (getitem overall ''Percentage'') (\<lambda>pct.
            andthen (getitem overall ''Category'') (\<lambda>cat.
              Inr ([Markdown ''## Dataset Descriptive Summary'']
                   @ metric_loop overall
                   @ [PlotlyChart (donut pct cat ''Overall Perception''),
                      PlotlyChart (BarChart overall ''Category'' ''Percentage'')],
                   sheets(''Overall Summary'' \<mapsto> overall))))))"

subsection \<open>Top Strengths and Areas to Improve\<close>

text \<open>
  Both sections build their table the same way, but for the direction of the sort:
  \<^verbatim>\<open>
  strengths_disp = strengths.copy()
  strengths_disp["Positive"] = strengths_disp["Positive"].apply(to_pct)
  strengths_disp["Neutral"]  = strengths_disp["Neutral"].apply(to_pct)
  strengths_disp["Negative"] = strengths_disp["Negative"].apply(to_pct)
  strengths_disp = strengths_disp.sort_values("Positive", ascending=False).head(top_n)
  \<close>
\<close>

definition section_disp :: "sort_kind \<Rightarrow> bool \<Rightarrow> nat \<Rightarrow> dataframe \<Rightarrow> error + dataframe" where
  "section_disp kind ascending top_n df =
     andthen (normalize_column df ''Positive'') (\<lambda>d1.
     andthen (normalize_column d1 ''Neutral'') (\<lambda>d2.
     andthen (normalize_column d2 ''Negative'') (\<lambda>d3.
     andthen (sort_values kind ''Positive'' ascending d3) (\<lambda>d4.
     Inr (df_head top_n d4)))))"

definition strengths_disp :: "sort_kind \<Rightarrow> nat \<Rightarrow> dataframe \<Rightarrow> error + dataframe" where
  "strengths_disp kind top_n strengths = section_disp kind False top_n strengths"

definition improve_disp :: "sort_kind \<Rightarrow> nat \<Rightarrow> dataframe \<Rightarrow> error + dataframe" where
  "improve_disp kind top_n improve = section_disp kind True top_n improve"

definition strengths_notice :: "widget list" where
  "strengths_notice =
     [Markdown ''## Strength Areas (by % Positive, with Neutral & Negative)'',
      Info ''Sheet 'Top Strengths' not found.'']"

definition render_strengths :: "sort_kind \<Rightarrow> nat \<Rightarrow> sheets \<Rightarrow> error + (widget list \<times> sheets)" where
  "render_strengths kind top_n sheets =
     (case sheets ''Top Strengths'' of
        None \<Rightarrow> Inr (strengths_notice, sheets)
      | Some strengths \<Rightarrow>
          if df_empty strengths then Inr (strengths_notice, sheets)
          else
            andthen (strengths_disp kind top_n strengths) (\<lambda>disp.
            andthen (make_stacked_bar disp ''Question'' ''Positive'' ''Neutral'' ''Negative''
                       ''Top Strengths'') (\<lambda>fig.
              Inr ([Markdown ''## Strength Areas (by % Positive, with Neutral & Negative)'',
                    PlotlyChart fig, DataView (reset_index disp)], sheets))))"

definition improve_notice :: "widget list" where
  "improve_notice =
     [Markdown ''## Areas to Improve (lowest % Positive, with Neutral & Negative)'',
      Info ''Sheet 'Areas to Improve' not found.'']"

definition render_improve :: "sort_kind \<Rightarrow> nat \<Rightarrow> sheets \<Rightarrow> error + (widget list \<times> sheets)" where
  "render_improve kind top_n sheets =
     (case sheets ''Areas to Improve'' of
        None \<Rightarrow> Inr (improve_notice, sheets)
      | Some improve \<Rightarrow>
          if df_empty improve then Inr (improve_notice, sheets)
          else
            andthen (improve_disp kind top_n improve) (\<lambda>disp.
            andthen (make_stacked_bar disp ''Question'' ''Positive'' ''Neutral'' ''Negative''
                       ''Areas to Improve'') (\<lambda>fig.
              Inr ([Markdown ''## Areas to Improve (lowest % Positive, with Neutral & Negative)'',
                    PlotlyChart fig, DataView (reset_index disp)], sheets))))"

subsection \<open>Yearly Trend\<close>

definition column_names :: "dataframe \<Rightarrow> string list" where
  "column_names df = map fst (df_columns df)"

definition is_category :: "string \<Rightarrow> bool" where
  "is_category c = (str_lower c \<in> set [''positive'', ''neutral'', ''negative''])"

text \<open>\<^verbatim>\<open>df.rename(columns={old: new})\<close>: a new table, the old one is untouched.\<close>

definition rename_column :: "string \<Rightarrow> string \<Rightarrow> dataframe \<Rightarrow> dataframe" where
  "rename_column old new df =
     df\<lparr>df_columns := map (\<lambda>col. (if fst col = old then new else fst col, snd col)) (df_columns df)\<rparr>"

text \<open>
  The loop
  \<^verbatim>\<open>
  for col in trend.columns:
      if col.lower() in ["positive", "neutral", "negative"]:
          trend[col] = trend[col].apply(to_pct)
  \<close>
  over the column names the table had when the loop started.
\<close>

fun normalize_categories :: "string list \<Rightarrow> dataframe \<Rightarrow> error + dataframe" where
  "normalize_categories [] df = Inr df"
| "normalize_categories (c # cs) df =
     (if is_category c then andthen (normalize_column df c) (normalize_categories cs)
      else normalize_categories cs df)"

text \<open>
  \<^verbatim>\<open>frame.melt(id_vars=[id_var], value_vars=value_vars, var_name=..., value_name=...)\<close>:
  the long form of a wide table, one block of rows per value column, in the order of
  \<open>value_vars\<close>; each block repeats the identifier column, names its value column and
  holds that column's cells. The library keeps each selected column once, so an
  identifier column is not also a value column. It refuses (\<^verbatim>\<open>ValueError\<close>) a
  \<open>value_name\<close> that is already a column of the table. The long table is assembled
  from a mapping keyed by column name, with the columns \<open>id_var\<close>, \<open>var_name\<close>,
  \<open>value_name\<close> in this order; it cannot be built (\<^verbatim>\<open>ValueError\<close>) when \<open>var_name\<close>
  repeats one of the other two names.
\<close>

fun get_columns :: "dataframe \<Rightarrow> string list \<Rightarrow> error + (string \<times> cell list) list" where
  "get_columns df [] = Inr []"
| "get_columns df (c # cs) =
     andthen (getitem df c) (\<lambda>xs.
     andthen (get_columns df cs) (\<lambda>rest. Inr ((c, xs) # rest)))"

definition melt ::
  "dataframe \<Rightarrow> string \<Rightarrow> string list \<Rightarrow> string \<Rightarrow> string \<Rightarrow> error + dataframe" where
  "melt frame id_var value_vars var_name value_name =
     (if value_name \<in> set (column_names frame) then Inl ValueError
      else
        andthen (getitem frame id_var) (\<lambda>id_data.
        andthen (get_columns frame (filter (\<lambda>c. c \<noteq> id_var) (remdups value_vars))) (\<lambda>vcols.
          if id_var = var_name \<or> value_name = var_name then Inl ValueError
          else
            Inr \<lparr>df_index = [0..<length id_data * length vcols],
                 df_columns =
                   [(id_var, concat (map (\<lambda>col. id_data) vcols)),
                    (var_name, concat (map (\<lambda>col. map (\<lambda>x. Text (fst col)) id_data) vcols)),
                    (value_name, concat (map snd vcols))]\<rparr>)))"

text \<open>
  \<^verbatim>\<open>px.line(frame, x=..., y=..., color=..., markers=True, title=...)\<close>: the chart
  description holds the table and the names of the columns it draws. The library refuses
  (\<^verbatim>\<open>ValueError\<close>) a table with a repeated column name and a name that is no column of
  the table.
\<close>

definition px_line ::
  "dataframe \<Rightarrow> string \<Rightarrow> string \<Rightarrow> string option \<Rightarrow> string \<Rightarrow> error + chart" where
  "px_line frame x y color title =
     (if \<not> distinct (column_names frame) then Inl ValueError
      else if list_all (\<lambda>c. c \<in> set (column_names frame))
                (x # y # (case color of None \<Rightarrow> [] | Some c \<Rightarrow> [c]))
      then Inr (Line frame x y color title)
      else Inl ValueError)"

definition trend_notice :: "widget list" where
  "trend_notice = [Markdown ''## Yearly Trend'', Info ''Sheet 'Yearly Trend' not found.'']"

text \<open>
  Lines 114 to 141. With a column whose lower-cased name is \<^verbatim>\<open>positive %\<close> the first such
  column is renamed and drawn as one line; otherwise the category columns are normalized
  in the sheet's own table, which is then melted and drawn with one line per category.
\<close>

definition render_trend :: "sheets \<Rightarrow> error + (widget list \<times> sheets)" where
  "render_trend sheets =
     (case sheets ''Yearly Trend'' of
        None \<Rightarrow> Inr (trend_notice, sheets)
      | Some trend0 \<Rightarrow>
          if df_empty trend0 then Inr (trend_notice, sheets)
          else
            (case filter (\<lambda>c. str_lower c = ''positive %'') (column_names trend0) of
               c # _ \<Rightarrow>
                 let t = rename_column c ''Positive %'' trend0
                 in andthen (px_line t (hd (column_names t)) ''Positive %'' None
                               ''Positive % over time'') (\<lambda>fig.
                      Inr ([Markdown ''## Yearly Trend'', PlotlyChart fig, DataView t], sheets))
             | [] \<Rightarrow>
                 andthen (normalize_categories (column_names trend0) trend0) (\<lambda>trend.
                 andthen (melt trend (hd (column_names trend))
                            (filter is_category (column_names trend))
                            ''Category'' ''Percent'') (\<lambda>melted.
                 andthen (px_line melted (hd (column_names melted)) ''Percent''
                            (Some ''Category'') ''Perception over time'') (\<lambda>fig.
                   Inr ([Markdown ''## Yearly Trend'', PlotlyChart fig, DataView trend],
                        sheets(''Yearly Trend'' \<mapsto> trend)))))))"

subsection \<open>The sections in order\<close>


section \<open>Example tables\<close>

definition example_questions :: dataframe where
  "example_questions =
     \<lparr>df_index = [0, 1],
      df_columns = [(''Question'', [Text ''Q1'', Text ''Q2'']),
                    (''Positive'', [Num (7/10), Num 40]),
                    (''Neutral'', [Num (2/10), Num 35]),
                    (''Negative'', [Num (1/10), Num 25])]\<rparr>"

definition example_overall :: dataframe where
  "example_overall =
     \<lparr>df_index = [0, 1, 2],
      df_columns = [(''Category'', [Text ''Positive'', Text ''Neutral'', Text ''Negative'']),
                    (''Percentage'', [Num (6/10), Missing, Num 10])]\<rparr>"

definition example_no_rows :: dataframe where
  "example_no_rows =
     \<lparr>df_index = [],
      df_columns = [(''Question'', []), (''Positive'', []), (''Neutral'', []),
                    (''Negative'', [])]\<rparr>"

definition example_small :: dataframe where
  "example_small =
     \<lparr>df_index = [0, 1],
      df_columns = [(''Question'', [Text ''Q1'', Text ''Q2'']),
                    (''Positive'', [Num (5/1000), Num (9/10)]),
                    (''Neutral'', [Num (2/10), Num (5/100)]),
                    (''Negative'', [Num (795/1000), Num (5/100)])]\<rparr>"

definition example_partial :: dataframe where
  "example_partial =
     \<lparr>df_index = [0, 1],
      df_columns = [(''Category'', [Text ''positive'', Text ''NEUTRAL'']),
                    (''Percentage'', [Num (6/10), Missing])]\<rparr>"

definition example_trend :: dataframe where
  "example_trend =
     \<lparr>df_index = [0, 1],
      df_columns = [(''Year'', [Num 2020, Num 2021]),
                    (''Positive'', [Num (8/10), Num (9/10)]),
                    (''Neutral'', [Num (15/100), Num (5/100)]),
                    (''Negative'', [Num (5/100), Num (5/100)])]\<rparr>"




section \<open>The normalizer's contract\<close>

lemma andthen_Inr [simp]: "andthen (Inr x) f = f x"
  by (simp add: andthen_def)

lemma andthen_Inl [simp]: "andthen (Inl e) f = Inl e"
  by (simp add: andthen_def)

text \<open>
  C1. For a missing input \<open>to_pct\<close> returns the missing value; for every number \<open>v\<close> it
  returns \<open>v * 100\<close> if \<open>v \<le> 1\<close> and \<open>v\<close> unchanged otherwise.
\<close>

theorem to_pct_contract:
  "to_pct Missing = Inr Missing
   \<and> (\<forall>v. v \<le> 1 \<longrightarrow> to_pct (Num v) = Inr (Num (v * 100)))
   \<and> (\<forall>v. 1 < v \<longrightarrow> to_pct (Num v) = Inr (Num v))"
  by simp

theorem to_pct_contract_witness:
  "to_pct Missing = Inr Missing
   \<and> (1/2 :: real) \<le> 1 \<and> to_pct (Num (1/2)) = Inr (Num 50)
   \<and> (1 :: real) \<le> 1 \<and> to_pct (Num 1) = Inr (Num 100)
   \<and> (1 :: real) < 42 \<and> to_pct (Num 42) = Inr (Num 42)"
proof -
  have a: "(1/2 :: real) \<le> 1" and b: "(1 :: real) \<le> 1" and c: "(1 :: real) < 42"
    by simp_all
  from to_pct_contract have "to_pct (Num (1/2)) = Inr (Num (1/2 * 100))"
    and "to_pct (Num 1) = Inr (Num (1 * 100))" and "to_pct (Num 42) = Inr (Num 42)"
    and "to_pct Missing = Inr Missing"
    using a b c by blast+
  then show ?thesis by simp
qed

text \<open>
  C4. A value above 1 is returned unchanged, so normalizing is idempotent there; but
  applying \<open>to_pct\<close> twice differs from applying it once for some number \<open>v \<le> 1\<close>
  (here \<open>v = 0.005\<close>: once gives \<open>0.5\<close>, twice gives \<open>50\<close>).
\<close>

theorem to_pct_idempotent_above_one_only:
  "(\<forall>v. 1 < v \<longrightarrow> to_pct (Num v) = Inr (Num v)
        \<and> andthen (to_pct (Num v)) to_pct = to_pct (Num v))
   \<and> (\<exists>v. v \<le> 1 \<and> andthen (to_pct (Num v)) to_pct \<noteq> to_pct (Num v))"
proof -
  have "andthen (to_pct (Num (5/1000))) to_pct \<noteq> to_pct (Num (5/1000))"
    by simp
  moreover have "(5/1000 :: real) \<le> 1" by simp
  ultimately have "\<exists>v::real. v \<le> 1 \<and> andthen (to_pct (Num v)) to_pct \<noteq> to_pct (Num v)"
    by blast
  then show ?thesis by simp
qed

theorem to_pct_idempotent_above_one_only_witness:
  "(1 :: real) < 80 \<and> to_pct (Num 80) = Inr (Num 80)
   \<and> andthen (to_pct (Num 80)) to_pct = to_pct (Num 80)"
proof -
  have a: "(1 :: real) < 80" by simp
  from to_pct_idempotent_above_one_only a
  have "to_pct (Num 80) = Inr (Num 80) \<and> andthen (to_pct (Num 80)) to_pct = to_pct (Num 80)"
    by blast
  with a show ?thesis by simp
qed

section \<open>Columns, normalization and the chart shapers\<close>

lemma map_of_set_column: "map_of (set_column c xs cols) = (map_of cols)(c \<mapsto> xs)"
  by (induction cols) (auto simp: fun_eq_iff)

lemma getitem_setitem:
  "getitem (setitem df c xs) c' = (if c' = c then Inr xs else getitem df c')"
  by (simp add: getitem_def setitem_def map_of_set_column)

lemma series_apply_Inr_iff: "series_apply f xs = Inr ys \<longleftrightarrow> map f xs = map Inr ys"
proof (induction xs arbitrary: ys)
  case Nil
  then show ?case by auto
next
  case (Cons x xs)
  show ?case
  proof (cases "f x")
    case (Inl e)
    then show ?thesis by (cases ys) auto
  next
    case fx: (Inr y)
    show ?thesis
    proof (cases "series_apply f xs")
      case (Inl e)
      with Cons.IH have "\<And>zs. map f xs \<noteq> map Inr zs" by auto
      with fx Inl show ?thesis by (cases ys) auto
    next
      case (Inr zs)
      with Cons.IH [of zs] have "map f xs = map Inr zs" by simp
      with fx Inr show ?thesis by (cases ys) (auto simp: map_eq_conv inj_map_eq_map)
    qed
  qed
qed

lemma normalize_column_Inr:
  "normalize_column df c = Inr d \<longleftrightarrow>
     (\<exists>xs ys. getitem df c = Inr xs \<and> map to_pct xs = map Inr ys \<and> d = setitem df c ys)"
proof (cases "getitem df c")
  case (Inl e)
  then show ?thesis by (simp add: normalize_column_def)
next
  case (Inr xs)
  then show ?thesis
    by (cases "series_apply to_pct xs")
       (auto simp: normalize_column_def series_apply_Inr_iff [symmetric])
qed

lemma normalize_columns3_Inr:
  assumes "distinct [p, n, g]"
    and "normalize_columns [p, n, g] df = Inr plot"
  shows "\<exists>ps ns gs ps' ns' gs'.
           getitem df p = Inr ps \<and> getitem df n = Inr ns \<and> getitem df g = Inr gs
         \<and> map to_pct ps = map Inr ps' \<and> map to_pct ns = map Inr ns'
         \<and> map to_pct gs = map Inr gs'
         \<and> plot = setitem (setitem (setitem df p ps') n ns') g gs'"
proof -
  from assms(2) obtain d1 where d1: "normalize_column df p = Inr d1"
    and r1: "normalize_columns [n, g] d1 = Inr plot"
    by (cases "normalize_column df p") auto
  from r1 obtain d2 where d2: "normalize_column d1 n = Inr d2"
    and r2: "normalize_columns [g] d2 = Inr plot"
    by (cases "normalize_column d1 n") auto
  from r2 have d3: "normalize_column d2 g = Inr plot"
    by (cases "normalize_column d2 g") auto
  from d1 obtain ps ps' where 1: "getitem df p = Inr ps" "map to_pct ps = map Inr ps'"
    "d1 = setitem df p ps'"
    by (auto simp: normalize_column_Inr)
  from d2 obtain ns ns' where 2: "getitem d1 n = Inr ns" "map to_pct ns = map Inr ns'"
    "d2 = setitem d1 n ns'"
    by (auto simp: normalize_column_Inr)
  from d3 obtain gs gs' where 3: "getitem d2 g = Inr gs" "map to_pct gs = map Inr gs'"
    "plot = setitem d2 g gs'"
    by (auto simp: normalize_column_Inr)
  from assms(1) 1 2 3 have "getitem df n = Inr ns" "getitem df g = Inr gs"
    by (auto simp: getitem_setitem split: if_splits)
  with 1 2 3 show ?thesis by blast
qed

lemma add_bar_Inr:
  "add_bar name df x y = Inr b \<longleftrightarrow>
     (\<exists>xs ys. getitem df x = Inr xs \<and> getitem df y = Inr ys \<and> b = Bar name xs ys)"
  by (cases "getitem df x"; cases "getitem df y") (auto simp: add_bar_def)

lemma make_stacked_bar_Inr:
  assumes "distinct [y, p, n, g]"
    and "make_stacked_bar df y p n g t = Inr fig"
  shows "\<exists>x ps ns gs ps' ns' gs'.
           getitem df y = Inr x \<and> getitem df p = Inr ps
         \<and> getitem df n = Inr ns \<and> getitem df g = Inr gs
         \<and> map to_pct ps = map Inr ps' \<and> map to_pct ns = map Inr ns'
         \<and> map to_pct gs = map Inr gs'
         \<and> fig = StackedBar t [Bar ''Positive'' x ps', Bar ''Neutral'' x ns',
                                  Bar ''Negative'' x gs']"
proof -
  from assms(2) obtain plot b1 b2 b3
    where plot: "normalize_columns [p, n, g] df = Inr plot"
      and b1: "add_bar ''Positive'' plot y p = Inr b1"
      and b2: "add_bar ''Neutral'' plot y n = Inr b2"
      and b3: "add_bar ''Negative'' plot y g = Inr b3"
      and fig: "fig = StackedBar t [b1, b2, b3]"
    unfolding make_stacked_bar_def
    by (auto simp: andthen_def split: sum.splits)
  from assms(1) have "distinct [p, n, g]" by simp
  from normalize_columns3_Inr [OF this plot]
  obtain ps ns gs ps' ns' gs' where
    cols: "getitem df p = Inr ps" "getitem df n = Inr ns" "getitem df g = Inr gs"
      "map to_pct ps = map Inr ps'" "map to_pct ns = map Inr ns'" "map to_pct gs = map Inr gs'"
    and plot_eq: "plot = setitem (setitem (setitem df p ps') n ns') g gs'"
    by blast
  from assms(1) have get: "getitem plot y = getitem df y" "getitem plot p = Inr ps'"
    "getitem plot n = Inr ns'" "getitem plot g = Inr gs'"
    by (auto simp: plot_eq getitem_setitem)
  from b1 get obtain x where x: "getitem df y = Inr x" "b1 = Bar ''Positive'' x ps'"
    by (auto simp: add_bar_Inr)
  from b2 get x have "b2 = Bar ''Neutral'' x ns'" by (auto simp: add_bar_Inr)
  moreover from b3 get x have "b3 = Bar ''Negative'' x gs'" by (auto simp: add_bar_Inr)
  ultimately show ?thesis using x cols fig by blast
qed

lemma render_overall_Inr:
  assumes "sheets ''Overall Summary'' = Some df" and "\<not> df_empty df"
    and "render_overall sheets = Inr (ws, s')"
  shows "\<exists>raw pct cat overall.
           getitem df ''Percentage'' = Inr raw \<and> map to_pct raw = map Inr pct
         \<and> overall = setitem df ''Percentage'' pct
         \<and> getitem df ''Category'' = Inr cat
         \<and> ws = [Markdown ''## Dataset Descriptive Summary''] @ metric_loop overall
                @ [PlotlyChart (donut pct cat ''Overall Perception''),
                   PlotlyChart (BarChart overall ''Category'' ''Percentage'')]
         \<and> s' = sheets(''Overall Summary'' \<mapsto> overall)"
proof -
  from assms obtain overall pct cat where
    ov: "normalize_column df ''Percentage'' = Inr overall"
    and pct: "getitem overall ''Percentage'' = Inr pct"
    and cat: "getitem overall ''Category'' = Inr cat"
    and ws: "ws = [Markdown ''## Dataset Descriptive Summary''] @ metric_loop overall
                @ [PlotlyChart (donut pct cat ''Overall Perception''),
                   PlotlyChart (BarChart overall ''Category'' ''Percentage'')]"
    and s': "s' = sheets(''Overall Summary'' \<mapsto> overall)"
    unfolding render_overall_def
    by (auto simp: andthen_def split: sum.splits)
  from ov obtain raw ys where raw: "getitem df ''Percentage'' = Inr raw"
    "map to_pct raw = map Inr ys" "overall = setitem df ''Percentage'' ys"
    by (auto simp: normalize_column_Inr)
  with pct have "pct = ys" by (simp add: getitem_setitem)
  moreover from cat raw have "getitem df ''Category'' = Inr cat"
    by (simp add: getitem_setitem)
  ultimately show ?thesis using raw ws s' by blast
qed

text \<open>
  C6. The donut shaper puts the values it is given into the chart description as they
  are, and its caller in the overview section passes it the normalized percentages;
  \<open>make_stacked_bar\<close> applies \<open>to_pct\<close> to each of its three series columns before it
  builds the bars.
\<close>

theorem donut_raw_stacked_bar_normalized:
  "donut vs ls t = Pie t vs ls
   \<and> (distinct [y, p, n, g] \<and> make_stacked_bar df y p n g t = Inr fig \<longrightarrow>
        (\<exists>x ps ns gs ps' ns' gs'.
           getitem df y = Inr x \<and> getitem df p = Inr ps
         \<and> getitem df n = Inr ns \<and> getitem df g = Inr gs
         \<and> map to_pct ps = map Inr ps' \<and> map to_pct ns = map Inr ns'
         \<and> map to_pct gs = map Inr gs'
         \<and> fig = StackedBar t [Bar ''Positive'' x ps', Bar ''Neutral'' x ns',
                                  Bar ''Negative'' x gs']))
   \<and> (sheets ''Overall Summary'' = Some overall \<and> \<not> df_empty overall
        \<and> render_overall sheets = Inr (ws, s') \<longrightarrow>
        (\<exists>raw pct cat.
           getitem overall ''Percentage'' = Inr raw \<and> map to_pct raw = map Inr pct
         \<and> getitem overall ''Category'' = Inr cat
         \<and> PlotlyChart (donut pct cat ''Overall Perception'') \<in> set ws))"
proof (intro conjI impI)
  show "donut vs ls t = Pie t vs ls" by (simp add: donut_def)
next
  assume "distinct [y, p, n, g] \<and> make_stacked_bar df y p n g t = Inr fig"
  then show "\<exists>x ps ns gs ps' ns' gs'.
           getitem df y = Inr x \<and> getitem df p = Inr ps
         \<and> getitem df n = Inr ns \<and> getitem df g = Inr gs
         \<and> map to_pct ps = map Inr ps' \<and> map to_pct ns = map Inr ns'
         \<and> map to_pct gs = map Inr gs'
         \<and> fig = StackedBar t [Bar ''Positive'' x ps', Bar ''Neutral'' x ns',
                                  Bar ''Negative'' x gs']"
    using make_stacked_bar_Inr by blast
next
  assume a: "sheets ''Overall Summary'' = Some overall \<and> \<not> df_empty overall
        \<and> render_overall sheets = Inr (ws, s')"
  then obtain raw pct cat ov where "getitem overall ''Percentage'' = Inr raw"
    "map to_pct raw = map Inr pct" "getitem overall ''Category'' = Inr cat"
    "ws = [Markdown ''## Dataset Descriptive Summary''] @ metric_loop ov
                @ [PlotlyChart (donut pct cat ''Overall Perception''),
                   PlotlyChart (BarChart ov ''Category'' ''Percentage'')]"
    using render_overall_Inr [of sheets overall ws s'] by blast
  then show "\<exists>raw pct cat.
           getitem overall ''Percentage'' = Inr raw \<and> map to_pct raw = map Inr pct
         \<and> getitem overall ''Category'' = Inr cat
         \<and> PlotlyChart (donut pct cat ''Overall Perception'') \<in> set ws"
    by auto
qed

lemma make_stacked_bar_example:
  "make_stacked_bar example_questions ''Question'' ''Positive'' ''Neutral'' ''Negative'' ''T''
     = Inr (StackedBar ''T''
         [Bar ''Positive'' [Text ''Q1'', Text ''Q2''] [Num 70, Num 40],
          Bar ''Neutral'' [Text ''Q1'', Text ''Q2''] [Num 20, Num 35],
          Bar ''Negative'' [Text ''Q1'', Text ''Q2''] [Num 10, Num 25]])"
  by (simp add: make_stacked_bar_def example_questions_def normalize_column_def getitem_def
      setitem_def add_bar_def)

lemma render_overall_example:
  "render_overall [''Overall Summary'' \<mapsto> example_overall]
     = Inr ([Markdown ''## Dataset Descriptive Summary'', Metric ''Positive'' 60,
             Metric ''Negative'' 10,
             PlotlyChart (donut [Num 60, Missing, Num 10]
               [Text ''Positive'', Text ''Neutral'', Text ''Negative''] ''Overall Perception''),
             PlotlyChart (BarChart (setitem example_overall ''Percentage'' [Num 60, Missing, Num 10])
               ''Category'' ''Percentage'')],
            [''Overall Summary'' \<mapsto> setitem example_overall ''Percentage'' [Num 60, Missing, Num 10]])"
  by (simp add: render_overall_def example_overall_def df_empty_def normalize_column_def
      getitem_def setitem_def metric_loop_def metric_try_def lookup_metric_def metric_block_def
      cat_matches_def is_text_def str_lower_def lower_char_def)

theorem donut_raw_stacked_bar_normalized_witness:
  "distinct [''Question'', ''Positive'', ''Neutral'', ''Negative'']
   \<and> make_stacked_bar example_questions ''Question'' ''Positive'' ''Neutral'' ''Negative'' ''T''
       = Inr (StackedBar ''T''
         [Bar ''Positive'' [Text ''Q1'', Text ''Q2''] [Num 70, Num 40],
          Bar ''Neutral'' [Text ''Q1'', Text ''Q2''] [Num 20, Num 35],
          Bar ''Negative'' [Text ''Q1'', Text ''Q2''] [Num 10, Num 25]])
   \<and> (\<exists>ps ps'. getitem example_questions ''Positive'' = Inr ps
         \<and> map to_pct ps = map Inr ps' \<and> ps' = [Num 70, Num 40])
   \<and> \<not> df_empty example_overall
   \<and> (\<exists>ws s' raw pct cat.
         render_overall [''Overall Summary'' \<mapsto> example_overall] = Inr (ws, s')
       \<and> getitem example_overall ''Percentage'' = Inr raw \<and> map to_pct raw = map Inr pct
       \<and> getitem example_overall ''Category'' = Inr cat
       \<and> PlotlyChart (donut pct cat ''Overall Perception'') \<in> set ws)"
proof -
  let ?fig = "StackedBar ''T''
         [Bar ''Positive'' [Text ''Q1'', Text ''Q2''] [Num 70, Num 40],
          Bar ''Neutral'' [Text ''Q1'', Text ''Q2''] [Num 20, Num 35],
          Bar ''Negative'' [Text ''Q1'', Text ''Q2''] [Num 10, Num 25]]"
  let ?sheets = "[''Overall Summary'' \<mapsto> example_overall]"
  have h1: "distinct [''Question'', ''Positive'', ''Neutral'', ''Negative'']
     \<and> make_stacked_bar example_questions ''Question'' ''Positive'' ''Neutral'' ''Negative'' ''T''
       = Inr ?fig"
    by (simp add: make_stacked_bar_example)
  obtain ws s' where r: "render_overall ?sheets = Inr (ws, s')"
    using render_overall_example by blast
  have e: "\<not> df_empty example_overall"
    by (simp add: df_empty_def example_overall_def)
  then have h2: "?sheets ''Overall Summary'' = Some example_overall \<and> \<not> df_empty example_overall
     \<and> render_overall ?sheets = Inr (ws, s')"
    using r by simp
  note t = donut_raw_stacked_bar_normalized [where df = example_questions and y = "''Question''" and p = "''Positive''"
      and n = "''Neutral''" and g = "''Negative''" and t = "''T''" and fig = ?fig
      and sheets = ?sheets and overall = example_overall and ws = ws and s' = s']
  from t h1 have c1: "\<exists>ps ps'. getitem example_questions ''Positive'' = Inr ps
         \<and> map to_pct ps = map Inr ps' \<and> ps' = [Num 70, Num 40]"
    by blast
  from t h2 have c2: "\<exists>raw pct cat.
         getitem example_overall ''Percentage'' = Inr raw \<and> map to_pct raw = map Inr pct
       \<and> getitem example_overall ''Category'' = Inr cat
       \<and> PlotlyChart (donut pct cat ''Overall Perception'') \<in> set ws"
    by blast
  from h1 c1 e r c2 show ?thesis by blast
qed

lemma getitem_zero_rows:
  assumes "wf_df df" and "df_index df = []" and "c \<in> set (column_names df)"
  shows "getitem df c = Inr []"
proof -
  from assms(3) obtain xs where xs: "(c, xs) \<in> set (df_columns df)"
    by (auto simp: column_names_def)
  with assms(1,2) have "xs = []"
    by (auto simp: wf_df_def list_all_iff)
  moreover from assms(1) xs have "map_of (df_columns df) c = Some xs"
    by (simp add: wf_df_def)
  ultimately show ?thesis by (simp add: getitem_def)
qed

lemma normalize_columns_zero_rows:
  assumes "\<forall>c \<in> insert y (set cs). getitem df c = Inr []"
  shows "\<exists>plot. normalize_columns cs df = Inr plot
           \<and> (\<forall>c \<in> insert y (set cs). getitem plot c = Inr [])"
  using assms
proof (induction cs arbitrary: df)
  case Nil
  then show ?case by simp
next
  case (Cons c cs)
  let ?d = "setitem df c []"
  from Cons.prems have n: "normalize_column df c = Inr ?d"
    by (simp add: normalize_column_def)
  from Cons.prems have "\<forall>c' \<in> insert y (set cs). getitem ?d c' = Inr []"
    by (simp add: getitem_setitem)
  from Cons.IH [OF this] obtain plot where p: "normalize_columns cs ?d = Inr plot"
    "\<forall>c' \<in> insert y (set cs). getitem plot c' = Inr []"
    by blast
  have "getitem ?d c = Inr []" by (simp add: getitem_setitem)
  have "getitem plot c = Inr []"
  proof (cases "c \<in> insert y (set cs)")
    case True
    with p show ?thesis by blast
  next
    case False
    have "\<And>d q. normalize_columns cs d = Inr q \<Longrightarrow> c \<notin> set cs \<Longrightarrow> getitem q c = getitem d c"
    proof -
      fix d q
      show "normalize_columns cs d = Inr q \<Longrightarrow> c \<notin> set cs \<Longrightarrow> getitem q c = getitem d c"
      proof (induction cs arbitrary: d)
        case Nil
        then show ?case by simp
      next
        case (Cons a cs)
        then obtain d1 where "normalize_column d a = Inr d1" "normalize_columns cs d1 = Inr q"
          by (cases "normalize_column d a") auto
        with Cons show ?case
          by (auto simp: normalize_column_Inr getitem_setitem)
      qed
    qed
    from this [OF p(1)] False \<open>getitem ?d c = Inr []\<close> show ?thesis by simp
  qed
  with n p show ?case by auto
qed

text \<open>
  C10. On empty input the shapers return an empty chart description and raise nothing:
  \<open>donut\<close> on empty values and labels, \<open>make_stacked_bar\<close> on a table that has the four
  columns and no rows.
\<close>

theorem shapers_empty_input:
  "donut [] [] t = Pie t [] []
   \<and> (wf_df df \<and> df_index df = [] \<and> set [y, p, n, g] \<subseteq> set (column_names df) \<longrightarrow>
        make_stacked_bar df y p n g t
          = Inr (StackedBar t [Bar ''Positive'' [] [], Bar ''Neutral'' [] [],
                               Bar ''Negative'' [] []]))"
proof (intro conjI impI)
  show "donut [] [] t = Pie t [] []" by (simp add: donut_def)
next
  assume a: "wf_df df \<and> df_index df = [] \<and> set [y, p, n, g] \<subseteq> set (column_names df)"
  then have "\<forall>c \<in> insert y (set [p, n, g]). getitem df c = Inr []"
    using getitem_zero_rows [of df] by auto
  from normalize_columns_zero_rows [OF this]
  obtain plot where "normalize_columns [p, n, g] df = Inr plot"
    and "\<forall>c \<in> insert y (set [p, n, g]). getitem plot c = Inr []"
    by blast
  then show "make_stacked_bar df y p n g t
          = Inr (StackedBar t [Bar ''Positive'' [] [], Bar ''Neutral'' [] [],
                               Bar ''Negative'' [] []])"
    by (simp add: make_stacked_bar_def add_bar_def)
qed

theorem shapers_empty_input_witness:
  "wf_df example_no_rows \<and> df_index example_no_rows = []
   \<and> set [''Question'', ''Positive'', ''Neutral'', ''Negative'']
       \<subseteq> set (column_names example_no_rows)
   \<and> make_stacked_bar example_no_rows ''Question'' ''Positive'' ''Neutral'' ''Negative''
        ''Top Strengths''
       = Inr (StackedBar ''Top Strengths'' [Bar ''Positive'' [] [], Bar ''Neutral'' [] [],
                               Bar ''Negative'' [] []])"
proof -
  have h: "wf_df example_no_rows \<and> df_index example_no_rows = []
   \<and> set [''Question'', ''Positive'', ''Neutral'', ''Negative'']
       \<subseteq> set (column_names example_no_rows)"
    by (simp add: wf_df_def example_no_rows_def column_names_def)
  with shapers_empty_input [of "''Top Strengths''" example_no_rows "''Question''" "''Positive''" "''Neutral''"
      "''Negative''"]
  show ?thesis by blast
qed

section \<open>The tables of the Strengths and Improve sections\<close>

lemma map_of_map_snd:
  "map_of (map (\<lambda>col. (fst col, f (snd col))) cols) c = map_option f (map_of cols c)"
  by (induction cols) auto

lemma getitem_take_rows:
  "getitem (take_rows ix df) c = map_sum id (\<lambda>xs. map (\<lambda>i. xs ! i) ix) (getitem df c)"
  using map_of_map_snd [of "\<lambda>xs. map (\<lambda>i. xs ! i) ix" "df_columns df" c]
  by (simp add: getitem_def take_rows_def split: option.split)

lemma getitem_df_head:
  "getitem (df_head n df) c = map_sum id (take n) (getitem df c)"
  using map_of_map_snd [of "take n" "df_columns df" c]
  by (simp add: getitem_def df_head_def split: option.split)

lemma nargsort_bound:
  assumes "nargsort kind asc items = Inr ix" and "i \<in> set ix"
  shows "i < length items"
proof -
  let ?idx0 = "filter (\<lambda>i. items ! i \<noteq> Missing) [0..<length items]"
  let ?ids = "if asc then ?idx0 else rev ?idx0"
  let ?vals0 = "map (\<lambda>i. num_val (items ! i)) ?idx0"
  let ?pos = "kind (if asc then ?vals0 else rev ?vals0)"
  let ?nan = "filter (\<lambda>i. items ! i = Missing) [0..<length items]"
  from assms(1) have ok: "list_all (\<lambda>j. j < length ?ids) ?pos"
    and ix: "ix = (if asc then map (\<lambda>j. ?ids ! j) ?pos else rev (map (\<lambda>j. ?ids ! j) ?pos)) @ ?nan"
    by (auto simp: nargsort_def Let_def split: if_splits)
  from assms(2) ix have "i \<in> set (map (\<lambda>j. ?ids ! j) ?pos) \<or> i \<in> set ?nan"
    by (auto split: if_splits)
  then show ?thesis
  proof
    assume "i \<in> set (map (\<lambda>j. ?ids ! j) ?pos)"
    then obtain j where "j \<in> set ?pos" "i = ?ids ! j" by auto
    with ok have "i \<in> set ?ids" by (auto simp: list_all_iff)
    then show ?thesis by (auto split: if_splits)
  next
    assume "i \<in> set ?nan"
    then show ?thesis by auto
  qed
qed

lemma getitem_length:
  assumes "wf_df df" and "getitem df c = Inr xs"
  shows "length xs = length (df_index df)"
proof -
  from assms(2) have "map_of (df_columns df) c = Some xs"
    by (simp add: getitem_def split: option.splits)
  then have "(c, xs) \<in> set (df_columns df)" by (rule map_of_SomeD)
  with assms(1) show ?thesis by (auto simp: wf_df_def list_all_iff)
qed

lemma twice_selected:
  assumes "map to_pct raw = map Inr once"
    and "map to_pct (map (\<lambda>i. once ! i) order) = map Inr twice"
    and "\<forall>i \<in> set order. i < length raw"
  shows "map (\<lambda>i. andthen (to_pct (raw ! i)) to_pct) order = map Inr twice"
proof -
  have "andthen (to_pct (raw ! i)) to_pct = to_pct (once ! i)" if "i \<in> set order" for i
  proof -
    from that assms(3) have i: "i < length raw" by blast
    from assms(1) have "length once = length raw"
      by (metis length_map)
    with assms(1) i have "to_pct (raw ! i) = Inr (once ! i)"
      by (metis nth_map)
    then show ?thesis by simp
  qed
  then have "map (\<lambda>i. andthen (to_pct (raw ! i)) to_pct) order
               = map (\<lambda>i. to_pct (once ! i)) order"
    by simp
  also have "\<dots> = map to_pct (map (\<lambda>i. once ! i) order)" by simp
  also note assms(2)
  finally show ?thesis .
qed

lemma to_pct_again: "to_pct x = Inr y \<Longrightarrow> \<exists>z. to_pct y = Inr z"
  by (cases x) (auto split: if_splits)

lemma to_pct_again_selected:
  assumes "map to_pct raw = map Inr once" and "\<forall>i \<in> set order. i < length raw"
  shows "\<exists>twice. map to_pct (map (\<lambda>i. once ! i) order) = map Inr twice"
proof -
  have len: "length once = length raw" using assms(1) by (metis length_map)
  have "\<exists>z. to_pct (once ! i) = Inr z" if "i \<in> set order" for i
  proof -
    from that assms(2) have i: "i < length raw" by blast
    with assms(1) len have "to_pct (raw ! i) = Inr (once ! i)" by (metis nth_map)
    then show ?thesis by (rule to_pct_again)
  qed
  then have "\<forall>c \<in> set (map (\<lambda>i. once ! i) order). \<exists>z. to_pct c = Inr z" by auto
  then show ?thesis
  proof (induction "map (\<lambda>i. once ! i) order" arbitrary: order)
    case Nil
    then show ?case by simp
  next
    case (Cons c cs)
    then obtain j js where o: "order = j # js" "c = once ! j" "cs = map (\<lambda>i. once ! i) js"
      by auto
    from Cons.prems o have "\<forall>c \<in> set (map (\<lambda>i. once ! i) js). \<exists>z. to_pct c = Inr z"
      by simp
    from Cons.hyps(1) [OF o(3) this] obtain zs
      where zs: "map to_pct (map (\<lambda>i. once ! i) js) = map Inr zs" by blast
    from Cons.prems o obtain z where "to_pct (once ! j) = Inr z" by auto
    with zs o have "map to_pct (map (\<lambda>i. once ! i) order) = map Inr (z # zs)" by simp
    then show ?case by blast
  qed
qed

lemma normalize_column_forward:
  assumes "getitem df c = Inr xs" and "map to_pct xs = map Inr ys"
  shows "normalize_column df c = Inr (setitem df c ys)"
  using assms normalize_column_Inr by blast

lemma section_disp_forward:
  assumes "getitem df ''Positive'' = Inr rp" and "getitem df ''Neutral'' = Inr rn"
    and "getitem df ''Negative'' = Inr rg"
    and "map to_pct rp = map Inr p1" and "map to_pct rn = map Inr n1"
    and "map to_pct rg = map Inr g1"
    and "nargsort kind asc p1 = Inr ix"
  shows "section_disp kind asc top_n df
           = Inr (df_head top_n (take_rows ix
                   (setitem (setitem (setitem df ''Positive'' p1) ''Neutral'' n1)
                      ''Negative'' g1)))"
proof -
  let ?d1 = "setitem df ''Positive'' p1"
  let ?d2 = "setitem ?d1 ''Neutral'' n1"
  let ?d3 = "setitem ?d2 ''Negative'' g1"
  have 1: "normalize_column df ''Positive'' = Inr ?d1"
    using assms(1,4) by (rule normalize_column_forward)
  have "getitem ?d1 ''Neutral'' = Inr rn" by (simp add: getitem_setitem assms(2))
  then have 2: "normalize_column ?d1 ''Neutral'' = Inr ?d2"
    using assms(5) by (rule normalize_column_forward)
  have "getitem ?d2 ''Negative'' = Inr rg" by (simp add: getitem_setitem assms(3))
  then have 3: "normalize_column ?d2 ''Negative'' = Inr ?d3"
    using assms(6) by (rule normalize_column_forward)
  have 4: "getitem ?d3 ''Positive'' = Inr p1" by (simp add: getitem_setitem)
  show ?thesis
    unfolding section_disp_def 1 2 3 andthen_Inr sort_values_def 4 assms(7) ..
qed

lemma make_stacked_bar_forward:
  assumes "getitem df ''Question'' = Inr x" and "getitem df ''Positive'' = Inr ps"
    and "getitem df ''Neutral'' = Inr ns" and "getitem df ''Negative'' = Inr gs"
    and "map to_pct ps = map Inr ps'" and "map to_pct ns = map Inr ns'"
    and "map to_pct gs = map Inr gs'"
  shows "make_stacked_bar df ''Question'' ''Positive'' ''Neutral'' ''Negative'' t
           = Inr (StackedBar t [Bar ''Positive'' x ps', Bar ''Neutral'' x ns',
                                Bar ''Negative'' x gs'])"
proof -
  let ?d1 = "setitem df ''Positive'' ps'"
  let ?d2 = "setitem ?d1 ''Neutral'' ns'"
  let ?d3 = "setitem ?d2 ''Negative'' gs'"
  have 1: "normalize_column df ''Positive'' = Inr ?d1"
    using assms(2,5) by (rule normalize_column_forward)
  have "getitem ?d1 ''Neutral'' = Inr ns" by (simp add: getitem_setitem assms(3))
  then have 2: "normalize_column ?d1 ''Neutral'' = Inr ?d2"
    using assms(6) by (rule normalize_column_forward)
  have "getitem ?d2 ''Negative'' = Inr gs" by (simp add: getitem_setitem assms(4))
  then have 3: "normalize_column ?d2 ''Negative'' = Inr ?d3"
    using assms(7) by (rule normalize_column_forward)
  have n: "normalize_columns [''Positive'', ''Neutral'', ''Negative''] df = Inr ?d3"
    by (simp add: 1 2 3)
  have g: "getitem ?d3 ''Question'' = Inr x" "getitem ?d3 ''Positive'' = Inr ps'"
    "getitem ?d3 ''Neutral'' = Inr ns'" "getitem ?d3 ''Negative'' = Inr gs'"
    by (simp_all add: getitem_setitem assms(1))
  show ?thesis
    unfolding make_stacked_bar_def n andthen_Inr add_bar_def g ..
qed

lemma section_chart_forward:
  assumes wf: "wf_df df"
    and rq: "getitem df ''Question'' = Inr rq"
    and rp: "getitem df ''Positive'' = Inr rp" and rn: "getitem df ''Neutral'' = Inr rn"
    and rg: "getitem df ''Negative'' = Inr rg"
    and p1: "map to_pct rp = map Inr p1" and n1: "map to_pct rn = map Inr n1"
    and g1: "map to_pct rg = map Inr g1"
    and ix: "nargsort kind asc p1 = Inr ix"
  shows "(\<forall>i \<in> set (take top_n ix). i < length (df_index df))
      \<and> section_disp kind asc top_n df
           = Inr (df_head top_n (take_rows ix
                   (setitem (setitem (setitem df ''Positive'' p1) ''Neutral'' n1)
                      ''Negative'' g1)))
      \<and> (\<exists>ps ns gs.
            map (\<lambda>i. andthen (to_pct (rp ! i)) to_pct) (take top_n ix) = map Inr ps
          \<and> map (\<lambda>i. andthen (to_pct (rn ! i)) to_pct) (take top_n ix) = map Inr ns
          \<and> map (\<lambda>i. andthen (to_pct (rg ! i)) to_pct) (take top_n ix) = map Inr gs
          \<and> make_stacked_bar
              (df_head top_n (take_rows ix
                 (setitem (setitem (setitem df ''Positive'' p1) ''Neutral'' n1)
                    ''Negative'' g1)))
              ''Question'' ''Positive'' ''Neutral'' ''Negative'' t
              = Inr (StackedBar t
                  [Bar ''Positive'' (map (\<lambda>i. rq ! i) (take top_n ix)) ps,
                   Bar ''Neutral'' (map (\<lambda>i. rq ! i) (take top_n ix)) ns,
                   Bar ''Negative'' (map (\<lambda>i. rq ! i) (take top_n ix)) gs]))"
proof (intro conjI)
  let ?order = "take top_n ix"
  let ?disp = "df_head top_n (take_rows ix
                 (setitem (setitem (setitem df ''Positive'' p1) ''Neutral'' n1)
                    ''Negative'' g1))"
  have len: "length rp = length (df_index df)" "length rn = length (df_index df)"
    "length rg = length (df_index df)"
    using wf rp rn rg by (auto dest: getitem_length)
  from p1 have "length p1 = length rp" by (metis length_map)
  with nargsort_bound [OF ix] len show bound: "\<forall>i \<in> set ?order. i < length (df_index df)"
    by (auto dest: in_set_takeD)
  show "section_disp kind asc top_n df = Inr ?disp"
    using rp rn rg p1 n1 g1 ix by (rule section_disp_forward)
  from bound len have b: "\<forall>i \<in> set ?order. i < length rp" "\<forall>i \<in> set ?order. i < length rn"
    "\<forall>i \<in> set ?order. i < length rg"
    by simp_all
  from to_pct_again_selected [OF p1 b(1)] obtain ps
    where ps: "map to_pct (map (\<lambda>i. p1 ! i) ?order) = map Inr ps" by blast
  from to_pct_again_selected [OF n1 b(2)] obtain ns
    where ns: "map to_pct (map (\<lambda>i. n1 ! i) ?order) = map Inr ns" by blast
  from to_pct_again_selected [OF g1 b(3)] obtain gs
    where gs: "map to_pct (map (\<lambda>i. g1 ! i) ?order) = map Inr gs" by blast
  have get: "getitem ?disp ''Question'' = Inr (map (\<lambda>i. rq ! i) ?order)"
    "getitem ?disp ''Positive'' = Inr (map (\<lambda>i. p1 ! i) ?order)"
    "getitem ?disp ''Neutral'' = Inr (map (\<lambda>i. n1 ! i) ?order)"
    "getitem ?disp ''Negative'' = Inr (map (\<lambda>i. g1 ! i) ?order)"
    by (simp_all add: getitem_df_head getitem_take_rows getitem_setitem take_map rq)
  note fig = make_stacked_bar_forward [OF get ps ns gs, of t]
  note t1 = twice_selected [OF p1 ps b(1)]
    and t2 = twice_selected [OF n1 ns b(2)]
    and t3 = twice_selected [OF g1 gs b(3)]
  from t1 t2 t3 fig show "\<exists>ps ns gs.
            map (\<lambda>i. andthen (to_pct (rp ! i)) to_pct) ?order = map Inr ps
          \<and> map (\<lambda>i. andthen (to_pct (rn ! i)) to_pct) ?order = map Inr ns
          \<and> map (\<lambda>i. andthen (to_pct (rg ! i)) to_pct) ?order = map Inr gs
          \<and> make_stacked_bar ?disp ''Question'' ''Positive'' ''Neutral'' ''Negative'' t
              = Inr (StackedBar t
                  [Bar ''Positive'' (map (\<lambda>i. rq ! i) ?order) ps,
                   Bar ''Neutral'' (map (\<lambda>i. rq ! i) ?order) ns,
                   Bar ''Negative'' (map (\<lambda>i. rq ! i) ?order) gs])"
    by blast
qed

lemma render_strengths_forward:
  assumes sheet: "sheets ''Top Strengths'' = Some df" and ne: "\<not> df_empty df"
    and disp: "strengths_disp kind top_n df = Inr disp"
    and fig: "make_stacked_bar disp ''Question'' ''Positive'' ''Neutral'' ''Negative''
                ''Top Strengths'' = Inr fig"
  shows "render_strengths kind top_n sheets
           = Inr ([Markdown ''## Strength Areas (by % Positive, with Neutral & Negative)'',
                   PlotlyChart fig, DataView (reset_index disp)], sheets)"
  unfolding render_strengths_def by (simp add: sheet ne disp fig)

lemma render_improve_forward:
  assumes sheet: "sheets ''Areas to Improve'' = Some df" and ne: "\<not> df_empty df"
    and disp: "improve_disp kind top_n df = Inr disp"
    and fig: "make_stacked_bar disp ''Question'' ''Positive'' ''Neutral'' ''Negative''
                ''Areas to Improve'' = Inr fig"
  shows "render_improve kind top_n sheets
           = Inr ([Markdown ''## Areas to Improve (lowest % Positive, with Neutral & Negative)'',
                   PlotlyChart fig, DataView (reset_index disp)], sheets)"
  unfolding render_improve_def by (simp add: sheet ne disp fig)

text \<open>
  C5. In the Strengths and Areas-to-Improve sections every charted Positive, Neutral and
  Negative value has gone through \<open>to_pct\<close> twice: once in the section's table and once
  more in \<open>make_stacked_bar\<close>. With \<open>rq\<close>, \<open>rp\<close>, \<open>rn\<close>, \<open>rg\<close> the four columns of the sheet,
  \<open>p1\<close>, \<open>n1\<close>, \<open>g1\<close> the columns normalized once and \<open>ix\<close> the order in which the sort puts
  the rows by \<open>p1\<close> (descending for the strengths, ascending for the areas to improve), the
  section shows the first \<open>top_n\<close> rows of that order: the bars of its chart hold the
  questions of these rows and \<open>to_pct (to_pct v)\<close> of the sheet's values \<open>v\<close> at these
  rows, while the table under the chart holds the values normalized once; the sheet set
  is left as it was. For \<open>0 < v \<le> 0.01\<close> the charted value is \<open>(v * 100) * 100\<close>, the
  product of both scalings (ten thousand times \<open>v\<close>; numbers are modelled as reals, so
  the products are exact), and not \<open>v * 100\<close>; for \<open>v > 0.01\<close> it is the same as one
  normalization.
\<close>

theorem sections_normalize_twice:
  "(sheets ''Top Strengths'' = Some df \<and> \<not> df_empty df \<and> wf_df df
      \<and> getitem df ''Question'' = Inr rq \<and> getitem df ''Positive'' = Inr rp
      \<and> getitem df ''Neutral'' = Inr rn \<and> getitem df ''Negative'' = Inr rg
      \<and> map to_pct rp = map Inr p1 \<and> map to_pct rn = map Inr n1
      \<and> map to_pct rg = map Inr g1
      \<and> nargsort kind False p1 = Inr ix \<longrightarrow>
     (\<forall>i \<in> set (take top_n ix). i < length (df_index df))
     \<and> (\<exists>ps ns gs.
          map (\<lambda>i. andthen (to_pct (rp ! i)) to_pct) (take top_n ix) = map Inr ps
        \<and> map (\<lambda>i. andthen (to_pct (rn ! i)) to_pct) (take top_n ix) = map Inr ns
        \<and> map (\<lambda>i. andthen (to_pct (rg ! i)) to_pct) (take top_n ix) = map Inr gs
        \<and> render_strengths kind top_n sheets
            = Inr ([Markdown ''## Strength Areas (by % Positive, with Neutral & Negative)'',
                    PlotlyChart (StackedBar ''Top Strengths''
                      [Bar ''Positive'' (map (\<lambda>i. rq ! i) (take top_n ix)) ps,
                       Bar ''Neutral'' (map (\<lambda>i. rq ! i) (take top_n ix)) ns,
                       Bar ''Negative'' (map (\<lambda>i. rq ! i) (take top_n ix)) gs]),
                    DataView (reset_index (df_head top_n (take_rows ix
                      (setitem (setitem (setitem df ''Positive'' p1) ''Neutral'' n1)
                         ''Negative'' g1))))],
                   sheets)))
   \<and> (sheets ''Areas to Improve'' = Some df \<and> \<not> df_empty df \<and> wf_df df
      \<and> getitem df ''Question'' = Inr rq \<and> getitem df ''Positive'' = Inr rp
      \<and> getitem df ''Neutral'' = Inr rn \<and> getitem df ''Negative'' = Inr rg
      \<and> map to_pct rp = map Inr p1 \<and> map to_pct rn = map Inr n1
      \<and> map to_pct rg = map Inr g1
      \<and> nargsort kind True p1 = Inr ix \<longrightarrow>
     (\<forall>i \<in> set (take top_n ix). i < length (df_index df))
     \<and> (\<exists>ps ns gs.
          map (\<lambda>i. andthen (to_pct (rp ! i)) to_pct) (take top_n ix) = map Inr ps
        \<and> map (\<lambda>i. andthen (to_pct (rn ! i)) to_pct) (take top_n ix) = map Inr ns
        \<and> map (\<lambda>i. andthen (to_pct (rg ! i)) to_pct) (take top_n ix) = map Inr gs
        \<and> render_improve kind top_n sheets
            = Inr ([Markdown ''## Areas to Improve (lowest % Positive, with Neutral & Negative)'',
                    PlotlyChart (StackedBar ''Areas to Improve''
                      [Bar ''Positive'' (map (\<lambda>i. rq ! i) (take top_n ix)) ps,
                       Bar ''Neutral'' (map (\<lambda>i. rq ! i) (take top_n ix)) ns,
                       Bar ''Negative'' (map (\<lambda>i. rq ! i) (take top_n ix)) gs]),
                    DataView (reset_index (df_head top_n (take_rows ix
                      (setitem (setitem (setitem df ''Positive'' p1) ''Neutral'' n1)
                         ''Negative'' g1))))],
                   sheets)))
   \<and> (\<forall>v. 0 < v \<and> v \<le> 1/100 \<longrightarrow>
         to_pct (Num v) = Inr (Num (v * 100))
       \<and> andthen (to_pct (Num v)) to_pct = Inr (Num (v * 100 * 100))
       \<and> v * 100 * 100 \<noteq> v * 100)
   \<and> (\<forall>v. 1/100 < v \<longrightarrow> andthen (to_pct (Num v)) to_pct = to_pct (Num v))"
proof (intro conjI impI allI)
  assume a: "sheets ''Top Strengths'' = Some df \<and> \<not> df_empty df \<and> wf_df df
      \<and> getitem df ''Question'' = Inr rq \<and> getitem df ''Positive'' = Inr rp
      \<and> getitem df ''Neutral'' = Inr rn \<and> getitem df ''Negative'' = Inr rg
      \<and> map to_pct rp = map Inr p1 \<and> map to_pct rn = map Inr n1
      \<and> map to_pct rg = map Inr g1
      \<and> nargsort kind False p1 = Inr ix"
  then have h: "wf_df df" "getitem df ''Question'' = Inr rq" "getitem df ''Positive'' = Inr rp"
    "getitem df ''Neutral'' = Inr rn" "getitem df ''Negative'' = Inr rg"
    "map to_pct rp = map Inr p1" "map to_pct rn = map Inr n1" "map to_pct rg = map Inr g1"
    "nargsort kind False p1 = Inr ix"
    and sheet: "sheets ''Top Strengths'' = Some df" and ne: "\<not> df_empty df"
    by blast+
  note c = section_chart_forward [OF h, of top_n "''Top Strengths''"]
  from c show "\<forall>i \<in> set (take top_n ix). i < length (df_index df)" by (rule conjunct1)
  from c have disp: "strengths_disp kind top_n df
           = Inr (df_head top_n (take_rows ix
                   (setitem (setitem (setitem df ''Positive'' p1) ''Neutral'' n1)
                      ''Negative'' g1)))"
    unfolding strengths_disp_def by blast
  from c obtain ps ns gs where
    t: "map (\<lambda>i. andthen (to_pct (rp ! i)) to_pct) (take top_n ix) = map Inr ps"
      "map (\<lambda>i. andthen (to_pct (rn ! i)) to_pct) (take top_n ix) = map Inr ns"
      "map (\<lambda>i. andthen (to_pct (rg ! i)) to_pct) (take top_n ix) = map Inr gs"
    and fig: "make_stacked_bar
              (df_head top_n (take_rows ix
                 (setitem (setitem (setitem df ''Positive'' p1) ''Neutral'' n1)
                    ''Negative'' g1)))
              ''Question'' ''Positive'' ''Neutral'' ''Negative'' ''Top Strengths''
              = Inr (StackedBar ''Top Strengths''
                  [Bar ''Positive'' (map (\<lambda>i. rq ! i) (take top_n ix)) ps,
                   Bar ''Neutral'' (map (\<lambda>i. rq ! i) (take top_n ix)) ns,
                   Bar ''Negative'' (map (\<lambda>i. rq ! i) (take top_n ix)) gs])"
    by blast
  from t render_strengths_forward [where sheets = sheets, OF sheet ne disp fig]
  show "\<exists>ps ns gs.
          map (\<lambda>i. andthen (to_pct (rp ! i)) to_pct) (take top_n ix) = map Inr ps
        \<and> map (\<lambda>i. andthen (to_pct (rn ! i)) to_pct) (take top_n ix) = map Inr ns
        \<and> map (\<lambda>i. andthen (to_pct (rg ! i)) to_pct) (take top_n ix) = map Inr gs
        \<and> render_strengths kind top_n sheets
            = Inr ([Markdown ''## Strength Areas (by % Positive, with Neutral & Negative)'',
                    PlotlyChart (StackedBar ''Top Strengths''
                      [Bar ''Positive'' (map (\<lambda>i. rq ! i) (take top_n ix)) ps,
                       Bar ''Neutral'' (map (\<lambda>i. rq ! i) (take top_n ix)) ns,
                       Bar ''Negative'' (map (\<lambda>i. rq ! i) (take top_n ix)) gs]),
                    DataView (reset_index (df_head top_n (take_rows ix
                      (setitem (setitem (setitem df ''Positive'' p1) ''Neutral'' n1)
                         ''Negative'' g1))))],
                   sheets)"
    by blast
next
  assume a: "sheets ''Areas to Improve'' = Some df \<and> \<not> df_empty df \<and> wf_df df
      \<and> getitem df ''Question'' = Inr rq \<and> getitem df ''Positive'' = Inr rp
      \<and> getitem df ''Neutral'' = Inr rn \<and> getitem df ''Negative'' = Inr rg
      \<and> map to_pct rp = map Inr p1 \<and> map to_pct rn = map Inr n1
      \<and> map to_pct rg = map Inr g1
      \<and> nargsort kind True p1 = Inr ix"
  then have h: "wf_df df" "getitem df ''Question'' = Inr rq" "getitem df ''Positive'' = Inr rp"
    "getitem df ''Neutral'' = Inr rn" "getitem df ''Negative'' = Inr rg"
    "map to_pct rp = map Inr p1" "map to_pct rn = map Inr n1" "map to_pct rg = map Inr g1"
    "nargsort kind True p1 = Inr ix"
    and sheet: "sheets ''Areas to Improve'' = Some df" and ne: "\<not> df_empty df"
    by blast+
  note c = section_chart_forward [OF h, of top_n "''Areas to Improve''"]
  from c show "\<forall>i \<in> set (take top_n ix). i < length (df_index df)" by (rule conjunct1)
  from c have disp: "improve_disp kind top_n df
           = Inr (df_head top_n (take_rows ix
                   (setitem (setitem (setitem df ''Positive'' p1) ''Neutral'' n1)
                      ''Negative'' g1)))"
    unfolding improve_disp_def by blast
  from c obtain ps ns gs where
    t: "map (\<lambda>i. andthen (to_pct (rp ! i)) to_pct) (take top_n ix) = map Inr ps"
      "map (\<lambda>i. andthen (to_pct (rn ! i)) to_pct) (take top_n ix) = map Inr ns"
      "map (\<lambda>i. andthen (to_pct (rg ! i)) to_pct) (take top_n ix) = map Inr gs"
    and fig: "make_stacked_bar
              (df_head top_n (take_rows ix
                 (setitem (setitem (setitem df ''Positive'' p1) ''Neutral'' n1)
                    ''Negative'' g1)))
              ''Question'' ''Positive'' ''Neutral'' ''Negative'' ''Areas to Improve''
              = Inr (StackedBar ''Areas to Improve''
                  [Bar ''Positive'' (map (\<lambda>i. rq ! i) (take top_n ix)) ps,
                   Bar ''Neutral'' (map (\<lambda>i. rq ! i) (take top_n ix)) ns,
                   Bar ''Negative'' (map (\<lambda>i. rq ! i) (take top_n ix)) gs])"
    by blast
  from t render_improve_forward [where sheets = sheets, OF sheet ne disp fig]
  show "\<exists>ps ns gs.
          map (\<lambda>i. andthen (to_pct (rp ! i)) to_pct) (take top_n ix) = map Inr ps
        \<and> map (\<lambda>i. andthen (to_pct (rn ! i)) to_pct) (take top_n ix) = map Inr ns
        \<and> map (\<lambda>i. andthen (to_pct (rg ! i)) to_pct) (take top_n ix) = map Inr gs
        \<and> render_improve kind top_n sheets
            = Inr ([Markdown ''## Areas to Improve (lowest % Positive, with Neutral & Negative)'',
                    PlotlyChart (StackedBar ''Areas to Improve''
                      [Bar ''Positive'' (map (\<lambda>i. rq ! i) (take top_n ix)) ps,
                       Bar ''Neutral'' (map (\<lambda>i. rq ! i) (take top_n ix)) ns,
                       Bar ''Negative'' (map (\<lambda>i. rq ! i) (take top_n ix)) gs]),
                    DataView (reset_index (df_head top_n (take_rows ix
                      (setitem (setitem (setitem df ''Positive'' p1) ''Neutral'' n1)
                         ''Negative'' g1))))],
                   sheets)"
    by blast
next
  fix v :: real
  assume "0 < v \<and> v \<le> 1/100"
  then show "to_pct (Num v) = Inr (Num (v * 100))" by simp
next
  fix v :: real
  assume "0 < v \<and> v \<le> 1/100"
  then show "andthen (to_pct (Num v)) to_pct = Inr (Num (v * 100 * 100))" by simp
next
  fix v :: real
  assume "0 < v \<and> v \<le> 1/100"
  then show "v * 100 * 100 \<noteq> v * 100" by simp
next
  fix v :: real
  assume "1/100 < v"
  then show "andthen (to_pct (Num v)) to_pct = to_pct (Num v)" by simp
qed

theorem sections_normalize_twice_witness:
  "render_strengths stable_argsort 5 [''Top Strengths'' \<mapsto> example_small]
     = Inr ([Markdown ''## Strength Areas (by % Positive, with Neutral & Negative)'',
             PlotlyChart (StackedBar ''Top Strengths''
               [Bar ''Positive'' [Text ''Q2'', Text ''Q1''] [Num 90, Num 50],
                Bar ''Neutral'' [Text ''Q2'', Text ''Q1''] [Num 5, Num 20],
                Bar ''Negative'' [Text ''Q2'', Text ''Q1''] [Num 5, Num (795/10)]]),
             DataView
               \<lparr>df_index = [0, 1],
                df_columns = [(''Question'', [Text ''Q2'', Text ''Q1'']),
                              (''Positive'', [Num 90, Num (1/2)]),
                              (''Neutral'', [Num 5, Num 20]),
                              (''Negative'', [Num 5, Num (795/10)])]\<rparr>],
            [''Top Strengths'' \<mapsto> example_small])
   \<and> render_improve stable_argsort 1 [''Areas to Improve'' \<mapsto> example_small]
     = Inr ([Markdown ''## Areas to Improve (lowest % Positive, with Neutral & Negative)'',
             PlotlyChart (StackedBar ''Areas to Improve''
               [Bar ''Positive'' [Text ''Q1''] [Num 50],
                Bar ''Neutral'' [Text ''Q1''] [Num 20],
                Bar ''Negative'' [Text ''Q1''] [Num (795/10)]]),
             DataView
               \<lparr>df_index = [0],
                df_columns = [(''Question'', [Text ''Q1'']),
                              (''Positive'', [Num (1/2)]),
                              (''Neutral'', [Num 20]),
                              (''Negative'', [Num (795/10)])]\<rparr>],
            [''Areas to Improve'' \<mapsto> example_small])
   \<and> to_pct (Num (5/1000)) = Inr (Num (1/2))
   \<and> andthen (to_pct (Num (5/1000))) to_pct = Inr (Num 50)
   \<and> andthen (to_pct (Num (9/10))) to_pct = to_pct (Num (9/10))"
proof -
  let ?rq = "[Text ''Q1'', Text ''Q2'']"
  let ?rp = "[Num (5/1000), Num (9/10)]"
  let ?rn = "[Num (2/10), Num (5/100)]"
  let ?rg = "[Num (795/1000), Num (5/100)]"
  let ?p1 = "[Num (1/2), Num 90]"
  let ?n1 = "[Num 20, Num 5]"
  let ?g1 = "[Num (795/10), Num 5]"
  note sort_defs = nargsort_def stable_argsort_def is_text_def num_val_def upt_rec
  note frame_defs = reset_index_def df_head_def take_rows_def setitem_def example_small_def
  have cols: "\<not> df_empty example_small \<and> wf_df example_small
      \<and> getitem example_small ''Question'' = Inr ?rq
      \<and> getitem example_small ''Positive'' = Inr ?rp
      \<and> getitem example_small ''Neutral'' = Inr ?rn
      \<and> getitem example_small ''Negative'' = Inr ?rg
      \<and> map to_pct ?rp = map Inr ?p1 \<and> map to_pct ?rn = map Inr ?n1
      \<and> map to_pct ?rg = map Inr ?g1"
    by (simp add: df_empty_def wf_df_def getitem_def example_small_def)
  have s1: "nargsort stable_argsort False ?p1 = Inr [1, 0]"
    by (simp add: sort_defs)
  have s2: "nargsort stable_argsort True ?p1 = Inr [0, 1]"
    by (simp add: sort_defs)
  have h1: "[''Top Strengths'' \<mapsto> example_small] ''Top Strengths'' = Some example_small
      \<and> \<not> df_empty example_small \<and> wf_df example_small
      \<and> getitem example_small ''Question'' = Inr ?rq
      \<and> getitem example_small ''Positive'' = Inr ?rp
      \<and> getitem example_small ''Neutral'' = Inr ?rn
      \<and> getitem example_small ''Negative'' = Inr ?rg
      \<and> map to_pct ?rp = map Inr ?p1 \<and> map to_pct ?rn = map Inr ?n1
      \<and> map to_pct ?rg = map Inr ?g1
      \<and> nargsort stable_argsort False ?p1 = Inr [1, 0]"
    using cols s1 by simp
  have h2: "[''Areas to Improve'' \<mapsto> example_small] ''Areas to Improve'' = Some example_small
      \<and> \<not> df_empty example_small \<and> wf_df example_small
      \<and> getitem example_small ''Question'' = Inr ?rq
      \<and> getitem example_small ''Positive'' = Inr ?rp
      \<and> getitem example_small ''Neutral'' = Inr ?rn
      \<and> getitem example_small ''Negative'' = Inr ?rg
      \<and> map to_pct ?rp = map Inr ?p1 \<and> map to_pct ?rn = map Inr ?n1
      \<and> map to_pct ?rg = map Inr ?g1
      \<and> nargsort stable_argsort True ?p1 = Inr [0, 1]"
    using cols s2 by simp
  note g1 = sections_normalize_twice [where sheets = "[''Top Strengths'' \<mapsto> example_small]"
      and df = example_small and rq = ?rq and rp = ?rp and rn = ?rn and rg = ?rg
      and ?p1.0 = ?p1 and ?n1.0 = ?n1 and ?g1.0 = ?g1 and kind = stable_argsort
      and ix = "[1, 0]" and top_n = 5, THEN conjunct1, THEN mp, OF h1, THEN conjunct2]
  note g2 = sections_normalize_twice [where sheets = "[''Areas to Improve'' \<mapsto> example_small]"
      and df = example_small and rq = ?rq and rp = ?rp and rn = ?rn and rg = ?rg
      and ?p1.0 = ?p1 and ?n1.0 = ?n1 and ?g1.0 = ?g1 and kind = stable_argsort
      and ix = "[0, 1]" and top_n = 1, THEN conjunct2, THEN conjunct1, THEN mp, OF h2,
      THEN conjunct2]
  from g1 obtain ps ns gs where
    e1: "map (\<lambda>i. andthen (to_pct (?rp ! i)) to_pct) (take 5 [1, 0]) = map Inr ps"
      "map (\<lambda>i. andthen (to_pct (?rn ! i)) to_pct) (take 5 [1, 0]) = map Inr ns"
      "map (\<lambda>i. andthen (to_pct (?rg ! i)) to_pct) (take 5 [1, 0]) = map Inr gs"
    and r1: "render_strengths stable_argsort 5 [''Top Strengths'' \<mapsto> example_small]
            = Inr ([Markdown ''## Strength Areas (by % Positive, with Neutral & Negative)'',
                    PlotlyChart (StackedBar ''Top Strengths''
                      [Bar ''Positive'' (map (\<lambda>i. ?rq ! i) (take 5 [1, 0])) ps,
                       Bar ''Neutral'' (map (\<lambda>i. ?rq ! i) (take 5 [1, 0])) ns,
                       Bar ''Negative'' (map (\<lambda>i. ?rq ! i) (take 5 [1, 0])) gs]),
                    DataView (reset_index (df_head 5 (take_rows [1, 0]
                      (setitem (setitem (setitem example_small ''Positive'' ?p1) ''Neutral'' ?n1)
                         ''Negative'' ?g1))))],
                   [''Top Strengths'' \<mapsto> example_small])"
    by blast
  from e1 have v1: "ps = [Num 90, Num 50]" "ns = [Num 5, Num 20]" "gs = [Num 5, Num (795/10)]"
    by (auto simp: Cons_eq_map_conv)
  from r1 have c1: "render_strengths stable_argsort 5 [''Top Strengths'' \<mapsto> example_small]
     = Inr ([Markdown ''## Strength Areas (by % Positive, with Neutral & Negative)'',
             PlotlyChart (StackedBar ''Top Strengths''
               [Bar ''Positive'' [Text ''Q2'', Text ''Q1''] [Num 90, Num 50],
                Bar ''Neutral'' [Text ''Q2'', Text ''Q1''] [Num 5, Num 20],
                Bar ''Negative'' [Text ''Q2'', Text ''Q1''] [Num 5, Num (795/10)]]),
             DataView
               \<lparr>df_index = [0, 1],
                df_columns = [(''Question'', [Text ''Q2'', Text ''Q1'']),
                              (''Positive'', [Num 90, Num (1/2)]),
                              (''Neutral'', [Num 5, Num 20]),
                              (''Negative'', [Num 5, Num (795/10)])]\<rparr>],
            [''Top Strengths'' \<mapsto> example_small])"
    unfolding v1 by (simp add: frame_defs upt_rec)
  from g2 obtain ps ns gs where
    e2: "map (\<lambda>i. andthen (to_pct (?rp ! i)) to_pct) (take 1 [0, 1]) = map Inr ps"
      "map (\<lambda>i. andthen (to_pct (?rn ! i)) to_pct) (take 1 [0, 1]) = map Inr ns"
      "map (\<lambda>i. andthen (to_pct (?rg ! i)) to_pct) (take 1 [0, 1]) = map Inr gs"
    and r2: "render_improve stable_argsort 1 [''Areas to Improve'' \<mapsto> example_small]
            = Inr ([Markdown ''## Areas to Improve (lowest % Positive, with Neutral & Negative)'',
                    PlotlyChart (StackedBar ''Areas to Improve''
                      [Bar ''Positive'' (map (\<lambda>i. ?rq ! i) (take 1 [0, 1])) ps,
                       Bar ''Neutral'' (map (\<lambda>i. ?rq ! i) (take 1 [0, 1])) ns,
                       Bar ''Negative'' (map (\<lambda>i. ?rq ! i) (take 1 [0, 1])) gs]),
                    DataView (reset_index (df_head 1 (take_rows [0, 1]
                      (setitem (setitem (setitem example_small ''Positive'' ?p1) ''Neutral'' ?n1)
                         ''Negative'' ?g1))))],
                   [''Areas to Improve'' \<mapsto> example_small])"
    by blast
  from e2 have v2: "ps = [Num 50]" "ns = [Num 20]" "gs = [Num (795/10)]"
    by (auto simp: Cons_eq_map_conv)
  from r2 have c2: "render_improve stable_argsort 1 [''Areas to Improve'' \<mapsto> example_small]
     = Inr ([Markdown ''## Areas to Improve (lowest % Positive, with Neutral & Negative)'',
             PlotlyChart (StackedBar ''Areas to Improve''
               [Bar ''Positive'' [Text ''Q1''] [Num 50],
                Bar ''Neutral'' [Text ''Q1''] [Num 20],
                Bar ''Negative'' [Text ''Q1''] [Num (795/10)]]),
             DataView
               \<lparr>df_index = [0],
                df_columns = [(''Question'', [Text ''Q1'']),
                              (''Positive'', [Num (1/2)]),
                              (''Neutral'', [Num 20]),
                              (''Negative'', [Num (795/10)])]\<rparr>],
            [''Areas to Improve'' \<mapsto> example_small])"
    unfolding v2 by (simp add: frame_defs upt_rec)
  have a: "(0 :: real) < 5/1000 \<and> (5/1000 :: real) \<le> 1/100" and b: "(1/100 :: real) < 9/10"
    by simp_all
  note small = sections_normalize_twice [THEN conjunct2, THEN conjunct2, THEN conjunct1,
      THEN spec, THEN mp, OF a]
  note big = sections_normalize_twice [THEN conjunct2, THEN conjunct2, THEN conjunct2,
      THEN spec, THEN mp, OF b]
  from small have c3: "to_pct (Num (5/1000)) = Inr (Num (1/2))"
    and c4: "andthen (to_pct (Num (5/1000))) to_pct = Inr (Num 50)"
    by simp_all
  from c1 c2 c3 c4 big show ?thesis by (intro conjI)
qed

section \<open>The summary metrics\<close>

lemma filter_zip_no_match:
  "\<not> list_ex P cats \<Longrightarrow> filter (\<lambda>row. P (fst row)) (zip cats pcts) = []"
  by (auto simp: list_ex_iff filter_empty_conv dest: set_zip_leftD)

lemma filter_zip_first_match:
  assumes "length cats = length pcts" and "i < length cats" and "P (cats ! i)"
    and "\<forall>j<i. \<not> P (cats ! j)"
  shows "\<exists>rest. filter (\<lambda>row. P (fst row)) (zip cats pcts) = (cats ! i, pcts ! i) # rest"
  using assms
proof (induction cats arbitrary: pcts i)
  case Nil
  then show ?case by simp
next
  case (Cons c cats)
  then obtain p ps where pcts: "pcts = p # ps" by (cases pcts) auto
  show ?case
  proof (cases i)
    case 0
    with Cons.prems pcts show ?thesis by simp
  next
    case (Suc k)
    with Cons.prems have "\<not> P c" by auto
    moreover from Suc Cons.prems pcts have "length cats = length ps" "k < length cats"
      "P (cats ! k)" "\<forall>j<k. \<not> P (cats ! j)"
      by auto
    from Cons.IH [OF this]
    obtain rest where "filter (\<lambda>row. P (fst row)) (zip cats ps) = (cats ! k, ps ! k) # rest"
      by blast
    ultimately show ?thesis using Suc pcts by simp
  qed
qed

lemma cat_matches_is_text: "cat_matches label c \<Longrightarrow> is_text c"
  by (cases c) (auto simp: cat_matches_def is_text_def)

lemma lookup_metric_absent:
  assumes "getitem overall ''Category'' = Inr cats"
    and "getitem overall ''Percentage'' = Inr pcts"
    and "\<not> list_ex (cat_matches label) cats"
  shows "lookup_metric overall label = Inl AttributeError
       \<or> lookup_metric overall label = Inl IndexError"
  using assms by (simp add: lookup_metric_def filter_zip_no_match)

lemma lookup_metric_first:
  assumes "getitem overall ''Category'' = Inr cats"
    and "getitem overall ''Percentage'' = Inr pcts"
    and "length cats = length pcts" and "i < length cats"
    and "cat_matches label (cats ! i)" and "\<forall>j<i. \<not> cat_matches label (cats ! j)"
  shows "lookup_metric overall label = Inr (pcts ! i)"
proof -
  from assms(4,5) have "list_ex is_text cats"
    by (auto simp: list_ex_iff dest: cat_matches_is_text)
  moreover from filter_zip_first_match [OF assms(3-6)]
  obtain rest where
    "filter (\<lambda>row. cat_matches label (fst row)) (zip cats pcts) = (cats ! i, pcts ! i) # rest"
    by blast
  ultimately show ?thesis using assms(1,2) by (simp add: lookup_metric_def)
qed

text \<open>
  C9. The metric loop never raises: each turn's exception is caught. When no row of the
  table has the label as its category, or the first such row has a missing percentage,
  the body of the \<^verbatim>\<open>try\<close> raises and that metric alone is left out; a label whose first
  row has a number gets its metric.
\<close>

theorem metrics_omit_missing:
  "metric_loop overall
     = metric_try overall ''Positive'' @ metric_try overall ''Neutral''
       @ metric_try overall ''Negative''
   \<and> (wf_df overall \<and> getitem overall ''Category'' = Inr cats
        \<and> getitem overall ''Percentage'' = Inr pcts \<longrightarrow>
        (\<not> list_ex (cat_matches label) cats \<longrightarrow>
           (\<exists>e. andthen (lookup_metric overall label) (metric_block label) = Inl e)
         \<and> metric_try overall label = [])
      \<and> (i < length cats \<and> cat_matches label (cats ! i)
           \<and> (\<forall>j<i. \<not> cat_matches label (cats ! j)) \<longrightarrow>
           (pcts ! i = Missing \<longrightarrow>
              andthen (lookup_metric overall label) (metric_block label) = Inl TypeError
            \<and> metric_try overall label = [])
         \<and> (\<forall>v. pcts ! i = Num v \<longrightarrow>
              metric_try overall label = [Metric label (if v \<le> 1 then v * 100 else v)])))"
proof (intro conjI impI allI)
  show "metric_loop overall
     = metric_try overall ''Positive'' @ metric_try overall ''Neutral''
       @ metric_try overall ''Negative''"
    by (simp add: metric_loop_def)
next
  assume a: "wf_df overall \<and> getitem overall ''Category'' = Inr cats
        \<and> getitem overall ''Percentage'' = Inr pcts"
    and n: "\<not> list_ex (cat_matches label) cats"
  from lookup_metric_absent [of overall cats pcts label] a n
  show "\<exists>e. andthen (lookup_metric overall label) (metric_block label) = Inl e"
    by auto
  then show "metric_try overall label = []"
    by (auto simp: metric_try_def)
next
  fix v
  assume a: "wf_df overall \<and> getitem overall ''Category'' = Inr cats
        \<and> getitem overall ''Percentage'' = Inr pcts"
    and f: "i < length cats \<and> cat_matches label (cats ! i)
           \<and> (\<forall>j<i. \<not> cat_matches label (cats ! j))"
  from a have "length cats = length (df_index overall)"
    "length pcts = length (df_index overall)"
    using getitem_length by blast+
  then have "length cats = length pcts" by simp
  with a f have l: "lookup_metric overall label = Inr (pcts ! i)"
    using lookup_metric_first [of overall cats pcts i label] by blast
  {
    assume "pcts ! i = Missing"
    with l show "andthen (lookup_metric overall label) (metric_block label) = Inl TypeError"
      by (simp add: metric_block_def)
    then show "metric_try overall label = []"
      by (simp add: metric_try_def)
  }
  {
    assume "pcts ! i = Num v"
    with l show "metric_try overall label = [Metric label (if v \<le> 1 then v * 100 else v)]"
      by (simp add: metric_try_def metric_block_def)
  }
qed

theorem metrics_omit_missing_witness:
  "wf_df example_partial
   \<and> getitem example_partial ''Category'' = Inr [Text ''positive'', Text ''NEUTRAL'']
   \<and> getitem example_partial ''Percentage'' = Inr [Num (6/10), Missing]
   \<and> \<not> list_ex (cat_matches ''Negative'') [Text ''positive'', Text ''NEUTRAL'']
   \<and> metric_try example_partial ''Negative'' = []
   \<and> cat_matches ''Neutral'' ([Text ''positive'', Text ''NEUTRAL''] ! 1)
   \<and> \<not> cat_matches ''Neutral'' ([Text ''positive'', Text ''NEUTRAL''] ! 0)
   \<and> [Num (6/10), Missing] ! 1 = Missing
   \<and> metric_try example_partial ''Neutral'' = []
   \<and> cat_matches ''Positive'' ([Text ''positive'', Text ''NEUTRAL''] ! 0)
   \<and> metric_try example_partial ''Positive'' = [Metric ''Positive'' 60]
   \<and> metric_loop example_partial = [Metric ''Positive'' 60]"
proof -
  let ?cats = "[Text ''positive'', Text ''NEUTRAL'']"
  let ?pcts = "[Num (6/10), Missing]"
  have h: "wf_df example_partial \<and> getitem example_partial ''Category'' = Inr ?cats
        \<and> getitem example_partial ''Percentage'' = Inr ?pcts"
    by (simp add: wf_df_def getitem_def example_partial_def)
  have neg: "\<not> list_ex (cat_matches ''Negative'') ?cats"
    by (simp add: cat_matches_def str_lower_def lower_char_def)
  have neu: "(1::nat) < length ?cats \<and> cat_matches ''Neutral'' (?cats ! 1)
           \<and> (\<forall>j<1. \<not> cat_matches ''Neutral'' (?cats ! j))"
    by (simp add: cat_matches_def str_lower_def lower_char_def)
  have pos: "(0::nat) < length ?cats \<and> cat_matches ''Positive'' (?cats ! 0)
           \<and> (\<forall>j<0. \<not> cat_matches ''Positive'' (?cats ! j))"
    by (simp add: cat_matches_def str_lower_def lower_char_def)
  have m: "?pcts ! 1 = Missing" "?pcts ! 0 = Num (6/10)" by simp_all
  from metrics_omit_missing [where overall = example_partial and cats = ?cats and pcts = ?pcts
      and label = "''Negative''"] h neg
  have r1: "metric_try example_partial ''Negative'' = []" by blast
  from metrics_omit_missing [where overall = example_partial and cats = ?cats and pcts = ?pcts
      and label = "''Neutral''" and i = 1] h neu m(1)
  have r2: "metric_try example_partial ''Neutral'' = []" by blast
  from metrics_omit_missing [where overall = example_partial and cats = ?cats and pcts = ?pcts
      and label = "''Positive''" and i = 0] h pos m(2)
  have r3: "metric_try example_partial ''Positive''
              = [Metric ''Positive'' (if (6/10 :: real) \<le> 1 then 6/10 * 100 else 6/10)]"
    by blast
  from metrics_omit_missing [of example_partial] r1 r2 r3
  have r4: "metric_loop example_partial = [Metric ''Positive'' 60]" by simp
  from neu have neu': "cat_matches ''Neutral'' (?cats ! 1)"
    "\<not> cat_matches ''Neutral'' (?cats ! 0)"
    by simp_all
  from h neg r1 neu' m(1) r2 pos r3 r4 show ?thesis by simp
qed

section \<open>The Yearly Trend section\<close>















lemma render_trend_example:
  "render_trend [''Yearly Trend'' \<mapsto> example_trend]
     = Inr ([Markdown ''## Yearly Trend'',
             PlotlyChart (Line
               \<lparr>df_index = [0, 1, 2, 3, 4, 5],
                df_columns =
                  [(''Year'', [Num 2020, Num 2021, Num 2020, Num 2021, Num 2020, Num 2021]),
                   (''Category'', [Text ''Positive'', Text ''Positive'', Text ''Neutral'',
                                   Text ''Neutral'', Text ''Negative'', Text ''Negative'']),
                   (''Percent'', [Num 80, Num 90, Num 15, Num 5, Num 5, Num 5])]\<rparr>
               ''Year'' ''Percent'' (Some ''Category'') ''Perception over time''),
             DataView
               \<lparr>df_index = [0, 1],
                df_columns = [(''Year'', [Num 2020, Num 2021]),
                              (''Positive'', [Num 80, Num 90]),
                              (''Neutral'', [Num 15, Num 5]),
                              (''Negative'', [Num 5, Num 5])]\<rparr>],
            [''Yearly Trend'' \<mapsto>
               \<lparr>df_index = [0, 1],
                df_columns = [(''Year'', [Num 2020, Num 2021]),
                              (''Positive'', [Num 80, Num 90]),
                              (''Neutral'', [Num 15, Num 5]),
                              (''Negative'', [Num 5, Num 5])]\<rparr>])"
  by (simp add: render_trend_def example_trend_def df_empty_def column_names_def
      str_lower_def lower_char_def is_category_def normalize_column_def getitem_def
      setitem_def melt_def px_line_def upt_rec)




section \<open>The sheet set after a section\<close>

text \<open>
  C3. The Overall Summary section assigns the normalized column into the table that the
  sheet set holds, and so does the Yearly Trend section when it draws one line per
  category: after the section the sheet set holds another table than before (here the
  percentages 60 and 80, 90, 15, 5 in place of 0.6 and 0.8, 0.9, 0.15, 0.05). The
  Strengths and Areas-to-Improve sections work on copies and return the sheet set as
  they found it.
\<close>

theorem overall_and_trend_assign_into_sheet_set:
  "map_sum id snd (render_overall [''Overall Summary'' \<mapsto> example_overall])
     = Inr [''Overall Summary'' \<mapsto>
              \<lparr>df_index = [0, 1, 2],
               df_columns = [(''Category'', [Text ''Positive'', Text ''Neutral'', Text ''Negative'']),
                             (''Percentage'', [Num 60, Missing, Num 10])]\<rparr>]
   \<and> map_sum id snd (render_overall [''Overall Summary'' \<mapsto> example_overall])
     \<noteq> Inr [''Overall Summary'' \<mapsto> example_overall]
   \<and> map_sum id snd (render_trend [''Yearly Trend'' \<mapsto> example_trend])
     = Inr [''Yearly Trend'' \<mapsto>
              \<lparr>df_index = [0, 1],
               df_columns = [(''Year'', [Num 2020, Num 2021]),
                             (''Positive'', [Num 80, Num 90]),
                             (''Neutral'', [Num 15, Num 5]),
                             (''Negative'', [Num 5, Num 5])]\<rparr>]
   \<and> map_sum id snd (render_trend [''Yearly Trend'' \<mapsto> example_trend])
     \<noteq> Inr [''Yearly Trend'' \<mapsto> example_trend]
   \<and> map_sum id snd (render_strengths stable_argsort 5 [''Top Strengths'' \<mapsto> example_small])
     = Inr [''Top Strengths'' \<mapsto> example_small]
   \<and> map_sum id snd
       (render_improve stable_argsort 5 [''Areas to Improve'' \<mapsto> example_small])
     = Inr [''Areas to Improve'' \<mapsto> example_small]"
proof -
  let ?overall = "\<lparr>df_index = [0, 1, 2],
               df_columns = [(''Category'', [Text ''Positive'', Text ''Neutral'', Text ''Negative'']),
                             (''Percentage'', [Num 60, Missing, Num 10])]\<rparr>"
  let ?trend = "\<lparr>df_index = [0, 1],
               df_columns = [(''Year'', [Num 2020, Num 2021]),
                             (''Positive'', [Num 80, Num 90]),
                             (''Neutral'', [Num 15, Num 5]),
                             (''Negative'', [Num 5, Num 5])]\<rparr>"
  note frame_defs = df_empty_def normalize_column_def getitem_def setitem_def
  have o: "map_sum id snd (render_overall [''Overall Summary'' \<mapsto> example_overall])
      = Inr [''Overall Summary'' \<mapsto> ?overall]"
    by (simp add: render_overall_def example_overall_def frame_defs)
  have "?overall \<noteq> example_overall" by (simp add: example_overall_def)
  then have "[''Overall Summary'' \<mapsto> ?overall] ''Overall Summary''
      \<noteq> [''Overall Summary'' \<mapsto> example_overall] ''Overall Summary''"
    by simp
  then have "[''Overall Summary'' \<mapsto> ?overall] \<noteq> [''Overall Summary'' \<mapsto> example_overall]"
    by metis
  with o have o': "map_sum id snd (render_overall [''Overall Summary'' \<mapsto> example_overall])
     \<noteq> Inr [''Overall Summary'' \<mapsto> example_overall]"
    by simp
  have t: "map_sum id snd (render_trend [''Yearly Trend'' \<mapsto> example_trend])
      = Inr [''Yearly Trend'' \<mapsto> ?trend]"
    by (simp add: render_trend_example)
  have "?trend \<noteq> example_trend" by (simp add: example_trend_def)
  then have "[''Yearly Trend'' \<mapsto> ?trend] ''Yearly Trend''
      \<noteq> [''Yearly Trend'' \<mapsto> example_trend] ''Yearly Trend''"
    by simp
  then have "[''Yearly Trend'' \<mapsto> ?trend] \<noteq> [''Yearly Trend'' \<mapsto> example_trend]"
    by metis
  with t have t': "map_sum id snd (render_trend [''Yearly Trend'' \<mapsto> example_trend])
     \<noteq> Inr [''Yearly Trend'' \<mapsto> example_trend]"
    by simp
  note sort_defs = sort_values_def nargsort_def stable_argsort_def is_text_def num_val_def
    upt_rec
  have s: "map_sum id snd
      (render_strengths stable_argsort 5 [''Top Strengths'' \<mapsto> example_small])
      = Inr [''Top Strengths'' \<mapsto> example_small]"
    by (simp add: render_strengths_def strengths_disp_def section_disp_def make_stacked_bar_def
        add_bar_def take_rows_def df_head_def example_small_def frame_defs sort_defs)
  have i: "map_sum id snd
      (render_improve stable_argsort 5 [''Areas to Improve'' \<mapsto> example_small])
      = Inr [''Areas to Improve'' \<mapsto> example_small]"
    by (simp add: render_improve_def improve_disp_def section_disp_def make_stacked_bar_def
        add_bar_def take_rows_def df_head_def example_small_def frame_defs sort_defs)
  from o o' t t' s i show ?thesis by (intro conjI)
qed

section \<open>Independence of the sections\<close>






















end
